theory Spec2Isabelle
  imports Complex_Main "HOL-Library.Multiset"
begin

section \<open>Numbers\<close>

text \<open>
  Every number of the program is a JavaScript \<^verbatim>\<open>number\<close>. The model reads them as
  real numbers: \<^verbatim>\<open>+\<close>, \<^verbatim>\<open>-\<close>, \<^verbatim>\<open>*\<close> and the comparisons are the exact ones,
  \<^verbatim>\<open>Math.sqrt\<close> is \<^term>\<open>sqrt\<close>, \<^verbatim>\<open>Math.pow(a, 2)\<close> is \<^term>\<open>a\<^sup>2\<close>,
  \<^verbatim>\<open>Math.cos\<close> and \<^verbatim>\<open>Math.sin\<close> are \<^term>\<open>cos\<close> and \<^term>\<open>sin\<close>. Rounding,
  infinities and NaN are outside the model; where the source divides by a value that can
  be zero, the model says what the source does there.
\<close>

section \<open>types.ts\<close>

record Point3D =
  x :: real
  y :: real
  z :: real

datatype ParticleType = FLOWER | GIFT | SPARKLE

text \<open>
  The fields \<^verbatim>\<open>id\<close>, \<^verbatim>\<open>type\<close> and \<^verbatim>\<open>size\<close> of the source are \<open>ident\<close>, \<open>ptype\<close>
  and \<open>psize\<close> here. \<^verbatim>\<open>Particle\<close> and \<^verbatim>\<open>PhotoObject\<close> share field names, which are
  written qualified.
\<close>

record Particle = Point3D +
  ident :: nat
  ptype :: ParticleType
  baseX :: real
  baseY :: real
  baseZ :: real
  targetX :: real
  targetY :: real
  targetZ :: real
  color :: string
  psize :: real
  twinklePhase :: real
  twinkleSpeed :: real
  variant :: nat

text \<open>An \<^verbatim>\<open>HTMLImageElement\<close>, as far as the program reads it: its pixel size.\<close>

record Image =
  img_width :: real
  img_height :: real

record PhotoObject = Point3D +
  ident :: string
  img :: Image
  width :: real
  height :: real
  aspectRatio :: real
  targetX :: real
  targetY :: real
  targetZ :: real
  baseX :: real
  baseY :: real
  baseZ :: real
  opacity :: real

datatype GestureType = NONE | OPEN_PALM | CLOSED_FIST | PINCH | POINTING

type_synonym HandLandmark = Point3D

record GestureResult =
  gesture :: GestureType
  cursor :: "(real \<times> real) option"

section \<open>services/gestureService.ts\<close>

text \<open>
  Reading a property of \<^verbatim>\<open>undefined\<close> throws a \<^verbatim>\<open>TypeError\<close>: that is what
  \<^verbatim>\<open>landmarks[20].x\<close> does on a hand with fewer than 21 landmarks.
\<close>

datatype js_error = TypeError

text \<open>
  \<^verbatim>\<open>handLandmarker\<close> is a module variable, \<^verbatim>\<open>undefined\<close> until the model is loaded.
  Its \<^verbatim>\<open>detectForVideo\<close> is the external hand tracker: a function from the video frame
  to \<^verbatim>\<open>results.landmarks\<close>, a list of hands (each a list of landmarks), or nothing.
\<close>

definition detectGesture ::
  "('video \<Rightarrow> HandLandmark list list option) option \<Rightarrow> 'video \<Rightarrow> js_error + GestureResult"
where
  "detectGesture handLandmarker video =
    (case handLandmarker of
      None \<Rightarrow> Inr \<lparr>gesture = NONE, cursor = None\<rparr>
    | Some detectForVideo \<Rightarrow>
        (case detectForVideo video of
          Some (landmarks # _) \<Rightarrow>
            if length landmarks \<le> 20 then Inl TypeError
            else
              let thumbTip = landmarks ! 4;
                  indexTip = landmarks ! 8;
                  middleTip = landmarks ! 12;
                  ringTip = landmarks ! 16;
                  pinkyTip = landmarks ! 20;
                  wrist = landmarks ! 0;
                  tips = [indexTip, middleTip, ringTip, pinkyTip];
                  avgTipDistToWrist =
                    foldl (\<lambda>acc tip.
                      acc + sqrt ((x tip - x wrist)\<^sup>2 + (y tip - y wrist)\<^sup>2)) 0 tips / 4;
                  thumbIndexDist =
                    sqrt ((x thumbTip - x indexTip)\<^sup>2 + (y thumbTip - y indexTip)\<^sup>2);
                  cursor = Some (x indexTip, y indexTip)
              in
                if thumbIndexDist < 0.05 then Inr \<lparr>gesture = PINCH, cursor = cursor\<rparr>
                else if avgTipDistToWrist < 0.25 then Inr \<lparr>gesture = CLOSED_FIST, cursor = cursor\<rparr>
                else if avgTipDistToWrist > 0.4 then Inr \<lparr>gesture = OPEN_PALM, cursor = cursor\<rparr>
                else Inr \<lparr>gesture = POINTING, cursor = cursor\<rparr>
        | _ \<Rightarrow> Inr \<lparr>gesture = NONE, cursor = None\<rparr>))"

section \<open>components/ChristmasTree.tsx\<close>

subsection \<open>Configuration\<close>

definition GOLDEN_PALETTE :: "string list" where
  "GOLDEN_PALETTE = [''#FFD700'', ''#FDB931'', ''#E5E4E2'', ''#DAA520'', ''#CD7F32'', ''#FFF8DC'']"

definition GIFT_PAIRS :: "(string \<times> string) list" where
  "GIFT_PAIRS = [(''#c0392b'', ''#f1c40f''), (''#166534'', ''#dc2626''),
                 (''#ecf0f1'', ''#d35400''), (''#6b21a8'', ''#f3e8ff'')]"

definition STAR_RADIUS :: real where "STAR_RADIUS = 35"

definition STAR_DEPTH :: real where "STAR_DEPTH = 10"

definition FOCAL_LENGTH :: real where "FOCAL_LENGTH = 800"

text \<open>\<^verbatim>\<open>createStarModel\<close>: two apex vertices, ten ring vertices, twenty faces.\<close>

definition createStarModel :: "Point3D list \<times> (nat \<times> nat \<times> nat) list" where
  "createStarModel =
    (let innerRadius = STAR_RADIUS * 0.4;
         ring = concat (map (\<lambda>i.
           let angle = (real i * 72 - 18) * pi / 180;
               angleInner = (real i * 72 + 18) * pi / 180
           in [\<lparr>x = cos angle * STAR_RADIUS, y = sin angle * STAR_RADIUS, z = 0\<rparr>,
               \<lparr>x = cos angleInner * innerRadius, y = sin angleInner * innerRadius, z = 0\<rparr>])
           [0..<5]);
         vertices = [\<lparr>x = 0, y = 0, z = STAR_DEPTH\<rparr>, \<lparr>x = 0, y = 0, z = - STAR_DEPTH\<rparr>] @ ring;
         faces = concat (map (\<lambda>i.
           let outer = 2 + i * 2;
               inner = 2 + i * 2 + 1;
               nextOuter = 2 + ((i + 1) mod 5) * 2
           in [(0, outer, inner), (0, inner, nextOuter), (1, inner, outer), (1, nextOuter, inner)])
           [0..<5])
     in (vertices, faces))"

definition STAR_MODEL :: "Point3D list \<times> (nat \<times> nat \<times> nat) list" where
  "STAR_MODEL = createStarModel"

subsection \<open>The state of the component\<close>

text \<open>
  The canvas element, when mounted: the size of its pixel buffer, whether
  \<^verbatim>\<open>getContext('2d')\<close> gives it a drawing context, and its bounding client rectangle.
\<close>

record Canvas =
  canvas_width :: real
  canvas_height :: real
  context2d :: bool
  rect_left :: real
  rect_top :: real
  rect_width :: real
  rect_height :: real

record Dimensions =
  dim_height :: real
  dim_radius :: real

text \<open>
  \<open>isExploded\<close> is the property owned by the application, which
  \<^verbatim>\<open>onToggleExplode\<close> sets; the other fields are the component's references and
  state. \<^verbatim>\<open>zoomedPhotoIdRef\<close> holds a string or \<^verbatim>\<open>null\<close>.
\<close>

record Scene =
  isExploded :: bool
  particlesRef :: "Particle list"
  photoObjectsRef :: "PhotoObject list"
  rotationRef :: real
  zoomedPhotoIdRef :: "string option"
  dimensions :: Dimensions
  isMobile :: bool
  canvasRef :: "Canvas option"

text \<open>
  The truth value JavaScript gives a \<^verbatim>\<open>string | null\<close> in a condition: \<^verbatim>\<open>null\<close>
  and the empty string are false.
\<close>

definition truthy :: "string option \<Rightarrow> bool" where
  "truthy v = (case v of None \<Rightarrow> False | Some str \<Rightarrow> str \<noteq> [])"

subsection \<open>Particle and photo creation\<close>

text \<open>
  \<^verbatim>\<open>Math.random()\<close> is an input: \<open>rnd j\<close> is the \<open>j\<close>-th draw made for one particle,
  in the order of the source, each in \<open>[0, 1)\<close>.
\<close>

definition PARTICLE_COUNT :: "bool \<Rightarrow> nat" where
  "PARTICLE_COUNT mobile = (if mobile then 1200 else 1500)"

definition initParticle :: "bool \<Rightarrow> Dimensions \<Rightarrow> nat \<Rightarrow> (nat \<Rightarrow> real) \<Rightarrow> Particle" where
  "initParticle mobile dims i rnd =
    (let treeHeight = dim_height dims;
         treeRadius = dim_radius dims;
         t = real i / real (PARTICLE_COUNT mobile);
         angle = t * 60 * pi;
         py = (t * treeHeight) - (treeHeight / 2);
         radius = (t powr 0.9) * treeRadius;
         r = radius + (rnd 0 - 0.5) * (if mobile then 25 else 45);
         px = r * cos angle;
         pz = r * sin angle;
         targetDist = (if mobile then 250 else 450) + rnd 1 * (if mobile then 200 else 300);
         targetTheta = rnd 2 * pi * 2;
         targetPhi = arccos ((rnd 3 * 2) - 1);
         rand = rnd 4;
         color0 = GOLDEN_PALETTE ! nat \<lfloor>rnd 5 * real (length GOLDEN_PALETTE)\<rfloor>;
         size0 = 0.5 + rnd 6 * 0.5;
         (type, col, sz, var) =
           (if rand < 0.10 then (SPARKLE, ''#FFFFFF'', 0.3 + rnd 7 * 0.5, 0)
            else if rand < 0.18 then
              (GIFT, color0, if mobile then 0.7 else 0.9,
               nat \<lfloor>rnd 7 * real (length GIFT_PAIRS)\<rfloor>)
            else
              (FLOWER, color0,
               if mobile then (0.35 + rnd 7 * 0.5) else (0.4 + rnd 7 * 0.6), 0))
     in \<lparr>x = px, y = py, z = pz,
         Particle.ident = i,
         ptype = type,
         Particle.baseX = px, Particle.baseY = py, Particle.baseZ = pz,
         Particle.targetX = targetDist * sin targetPhi * cos targetTheta,
         Particle.targetY = targetDist * sin targetPhi * sin targetTheta,
         Particle.targetZ = targetDist * cos targetPhi,
         color = col,
         psize = sz,
         twinklePhase = rnd 8 * pi * 2,
         twinkleSpeed = 0.003 + rnd 9 * 0.004,
         variant = var\<rparr>)"

text \<open>The effect that rebuilds the population: \<open>rnd i\<close> are the draws of particle \<open>i\<close>.\<close>

definition initParticles :: "(nat \<Rightarrow> nat \<Rightarrow> real) \<Rightarrow> Scene \<Rightarrow> Scene" where
  "initParticles rnd s =
    s\<lparr>particlesRef :=
      map (\<lambda>i. initParticle (isMobile s) (dimensions s) i (rnd i))
        [0..<PARTICLE_COUNT (isMobile s)]\<rparr>"

text \<open>The resize handler: the size class and the tree dimensions that go with it.\<close>

definition handleResize :: "real \<Rightarrow> Scene \<Rightarrow> Scene" where
  "handleResize innerWidth s =
    (let mobile = innerWidth < 768
     in s\<lparr>isMobile := mobile,
          dimensions := \<lparr>dim_height = if mobile then 400 else 600,
                         dim_radius = if mobile then 140 else 220\<rparr>\<rparr>)"

text \<open>
  A new photo object. The four draws of the source are three numbers and the identifier
  \<^verbatim>\<open>Math.random().toString(36).substr(2, 9)\<close>, taken as the string it yields. Images
  arrive decoded, with a positive pixel size.
\<close>

definition newPhotoObject :: "Image \<Rightarrow> real \<times> real \<times> real \<times> string \<Rightarrow> PhotoObject" where
  "newPhotoObject im draws =
    (case draws of (r1, r2, r3, rid) \<Rightarrow>
      let targetDist = 200 + r1 * 150;
          theta = r2 * pi * 2;
          phi = arccos ((r3 * 2) - 1)
      in \<lparr>x = 0, y = 0, z = 0,
          PhotoObject.ident = rid,
          img = im,
          width = 120,
          height = 120 * (img_height im / img_width im),
          aspectRatio = img_width im / img_height im,
          PhotoObject.targetX = targetDist * sin phi * cos theta,
          PhotoObject.targetY = targetDist * sin phi * sin theta,
          PhotoObject.targetZ = targetDist * cos phi,
          PhotoObject.baseX = 0, PhotoObject.baseY = 0, PhotoObject.baseZ = 0,
          opacity = 0\<rparr>)"

text \<open>
  The effect on the \<^verbatim>\<open>photos\<close> property: \<open>rnd k\<close> are the draws for the \<open>k\<close>-th
  image of the new slice.
\<close>

definition syncPhotos :: "Image list \<Rightarrow> (nat \<Rightarrow> real \<times> real \<times> real \<times> string) \<Rightarrow> Scene \<Rightarrow> Scene" where
  "syncPhotos photos rnd s =
    (if length photos = 0 then s\<lparr>photoObjectsRef := [], zoomedPhotoIdRef := None\<rparr>
     else if length photos > length (photoObjectsRef s) then
       (let newImgs = drop (length (photoObjectsRef s)) photos
        in s\<lparr>photoObjectsRef :=
             photoObjectsRef s @
               map (\<lambda>(k, im). newPhotoObject im (rnd k)) (enumerate 0 newImgs)\<rparr>)
     else s)"

subsection \<open>updatePhysics\<close>

text \<open>
  \<^verbatim>\<open>const ease = 0.05\<close>, and the update \<^verbatim>\<open>v += (t - v) * ease\<close> that the source
  writes out for every animated field.
\<close>

definition ease :: real where
  "ease = 0.05"

definition easeTo :: "real \<Rightarrow> real \<Rightarrow> real" where
  "easeTo t v = v + (t - v) * ease"

text \<open>The body of the loop over the particles.\<close>

definition updateParticle :: "bool \<Rightarrow> Particle \<Rightarrow> Particle" where
  "updateParticle exploded p =
    (let tx = (if exploded then Particle.targetX p else Particle.baseX p);
         ty = (if exploded then Particle.targetY p else Particle.baseY p);
         tz = (if exploded then Particle.targetZ p else Particle.baseZ p)
     in p\<lparr>x := easeTo tx (x p), y := easeTo ty (y p), z := easeTo tz (z p)\<rparr>)"

text \<open>The body of the loop over the photos.\<close>

definition updatePhoto :: "string option \<Rightarrow> bool \<Rightarrow> PhotoObject \<Rightarrow> PhotoObject" where
  "updatePhoto zoomedPhotoId exploded p =
    (let (tx, ty, tz, targetOpacity) =
           (if zoomedPhotoId = Some (PhotoObject.ident p) then
              (0, 0, - FOCAL_LENGTH + 250, 1)
            else if truthy zoomedPhotoId then
              (PhotoObject.targetX p * 3, PhotoObject.targetY p * 3, PhotoObject.targetZ p, 0)
            else
              (if exploded then PhotoObject.targetX p else PhotoObject.baseX p,
               if exploded then PhotoObject.targetY p else PhotoObject.baseY p,
               if exploded then PhotoObject.targetZ p else PhotoObject.baseZ p,
               if exploded then 1 else 0))
     in p\<lparr>x := easeTo tx (x p), y := easeTo ty (y p), z := easeTo tz (z p),
          opacity := easeTo targetOpacity (opacity p)\<rparr>)"

definition updatePhysics :: "Scene \<Rightarrow> Scene" where
  "updatePhysics s =
    s\<lparr>rotationRef :=
        (if \<not> truthy (zoomedPhotoIdRef s)
         then rotationRef s + (if isExploded s then 0.001 else 0.003)
         else rotationRef s),
      particlesRef := map (updateParticle (isExploded s)) (particlesRef s),
      photoObjectsRef :=
        map (updatePhoto (zoomedPhotoIdRef s) (isExploded s)) (photoObjectsRef s)\<rparr>"

subsection \<open>draw\<close>

text \<open>
  An entry of \<^verbatim>\<open>allObjects\<close>. A star face carries its three transformed vertices and
  the red and green components of its colour.
\<close>

datatype Drawable =
  ParticleItem (particle_obj: Particle) (rx: real) (ry: real) (rz: real) (sortZ: real)
| PhotoItem (photo_obj: PhotoObject) (rx: real) (ry: real) (rz: real) (sortZ: real)
| StarFaceItem (v0: Point3D) (v1: Point3D) (v2: Point3D) (face_color: "int \<times> int") (sortZ: real)

definition particleItem :: "real \<Rightarrow> real \<Rightarrow> Particle \<Rightarrow> Drawable" where
  "particleItem cosr sinr p =
    (let prx = x p * cosr - z p * sinr;
         prz = z p * cosr + x p * sinr
     in ParticleItem p prx (y p) prz prz)"

definition photoItem :: "string option \<Rightarrow> real \<Rightarrow> real \<Rightarrow> PhotoObject \<Rightarrow> Drawable" where
  "photoItem zoomedPhotoId cosr sinr p =
    (let (prx, pry, prz) =
           (if zoomedPhotoId = Some (PhotoObject.ident p) then (x p, y p, z p)
            else (x p * cosr - z p * sinr, y p, z p * cosr + x p * sinr))
     in PhotoItem p prx pry prz prz)"

text \<open>
  A face of the star. The unit normal divides by the length of the normal, which is
  positive for the faces of \<^term>\<open>STAR_MODEL\<close>.
\<close>

definition starFaceItem :: "Point3D list \<Rightarrow> nat \<times> nat \<times> nat \<Rightarrow> Drawable" where
  "starFaceItem transformedVerts face =
    (case face of (f0, f1, f2) \<Rightarrow>
      let a = transformedVerts ! f0;
          b = transformedVerts ! f1;
          c = transformedVerts ! f2;
          ux = x b - x a; uy = y b - y a; uz = z b - z a;
          vx = x c - x a; vy = y c - y a; vz = z c - z a;
          nx = uy * vz - uz * vy; ny = uz * vx - ux * vz; nz = ux * vy - uy * vx;
          len = sqrt (nx * nx + ny * ny + nz * nz);
          nxn = nx / len; nyn = ny / len; nzn = nz / len;
          dot = (nxn * (- 0.5) + nyn * (- 0.5) + nzn * (- 0.8))
                  / sqrt (0.5 * 0.5 + 0.5 * 0.5 + 0.8 * 0.8);
          brightness = max 0.4 ((dot + 1) / 2);
          r = \<lfloor>255 * brightness\<rfloor>;
          g = \<lfloor>215 * brightness\<rfloor>;
          avgZ = (z a + z b + z c) / 3
      in StarFaceItem a b c (r, g) avgZ)"

definition starItems :: "Dimensions \<Rightarrow> real \<Rightarrow> real \<Rightarrow> Drawable list" where
  "starItems dims cosr sinr =
    (let starY = - dim_height dims / 2 - 20;
         transformedVerts =
           map (\<lambda>v. \<lparr>x = x v * cosr - z v * sinr, y = y v + starY, z = z v * cosr + x v * sinr\<rparr>)
             (fst STAR_MODEL)
     in map (starFaceItem transformedVerts) (snd STAR_MODEL))"

text \<open>\<^verbatim>\<open>allObjects\<close> as it stands before the sort.\<close>

definition allObjects :: "Scene \<Rightarrow> Drawable list" where
  "allObjects s =
    (let cosr = cos (rotationRef s);
         sinr = sin (rotationRef s)
     in map (particleItem cosr sinr) (particlesRef s)
        @ map (photoItem (zoomedPhotoIdRef s) cosr sinr) (photoObjectsRef s)
        @ (if \<not> truthy (zoomedPhotoIdRef s) then starItems (dimensions s) cosr sinr else []))"

text \<open>
  \<^verbatim>\<open>allObjects.sort((a, b) => b.sortZ - a.sortZ)\<close>: the sort of JavaScript is stable,
  as \<^term>\<open>sort_key\<close> is. \<open>draw\<close> gives the items in the order in which the loop that
  paints them visits them, and nothing without a canvas or without its drawing context.
\<close>

definition draw :: "Scene \<Rightarrow> Drawable list option" where
  "draw s =
    (case canvasRef s of
      None \<Rightarrow> None
    | Some canvas \<Rightarrow>
        if \<not> context2d canvas then None
        else Some (sort_key (\<lambda>item. - sortZ item) (allObjects s)))"

subsection \<open>handleInteraction\<close>

text \<open>
  The loop over the sorted candidates; its result is \<^verbatim>\<open>clickedId\<close>. When
  \<open>FOCAL_LENGTH + rz\<close> is zero the scale of the source is \<^verbatim>\<open>Infinity\<close>, the bounds of
  the rectangle are infinite or NaN, and the test fails for every input point.
\<close>

fun clickedIdLoop ::
  "real \<Rightarrow> real \<Rightarrow> real \<Rightarrow> real \<Rightarrow> real \<Rightarrow> real \<Rightarrow> PhotoObject list \<Rightarrow> string option"
where
  "clickedIdLoop inputX inputY cx cy cosr sinr [] = None"
| "clickedIdLoop inputX inputY cx cy cosr sinr (p # ps) =
    (let prx = x p * cosr - z p * sinr;
         pry = y p;
         prz = z p * cosr + x p * sinr
     in if FOCAL_LENGTH + prz = 0 then clickedIdLoop inputX inputY cx cy cosr sinr ps
        else
          let scale = FOCAL_LENGTH / (FOCAL_LENGTH + prz)
          in if scale \<le> 0 then clickedIdLoop inputX inputY cx cy cosr sinr ps
             else
               let x2d = prx * scale + cx;
                   y2d = pry * scale + cy;
                   w = width p * scale;
                   h = height p * scale
               in if inputX \<ge> x2d - w / 2 \<and> inputX \<le> x2d + w / 2
                     \<and> inputY \<ge> y2d - h / 2 \<and> inputY \<le> y2d + h / 2
                  then Some (PhotoObject.ident p)
                  else clickedIdLoop inputX inputY cx cy cosr sinr ps)"

definition handleInteraction :: "real \<Rightarrow> real \<Rightarrow> bool \<Rightarrow> Scene \<Rightarrow> Scene" where
  "handleInteraction inputX inputY isRightClick s =
    (if isRightClick then s\<lparr>isExploded := False, zoomedPhotoIdRef := None\<rparr>
     else if \<not> isExploded s then s\<lparr>isExploded := True\<rparr>
     else if truthy (zoomedPhotoIdRef s) then s\<lparr>zoomedPhotoIdRef := None\<rparr>
     else
       (case canvasRef s of
         None \<Rightarrow> s
       | Some canvas \<Rightarrow>
           let cx = canvas_width canvas / 2;
               cy = canvas_height canvas / 2;
               cosr = cos (rotationRef s);
               sinr = sin (rotationRef s);
               candidates = filter (\<lambda>p. opacity p > 0.5) (photoObjectsRef s);
               sorted_candidates = sort_key (\<lambda>p. z p * cosr + x p * sinr) candidates;
               clickedId = clickedIdLoop inputX inputY cx cy cosr sinr sorted_candidates
           in if truthy clickedId then s\<lparr>zoomedPhotoIdRef := clickedId\<rparr> else s))"

definition onMouseDown :: "real \<Rightarrow> real \<Rightarrow> nat \<Rightarrow> Scene \<Rightarrow> Scene" where
  "onMouseDown clientX clientY button s =
    (case canvasRef s of
      None \<Rightarrow> s
    | Some canvas \<Rightarrow>
        handleInteraction (clientX - rect_left canvas) (clientY - rect_top canvas) (button = 2) s)"

text \<open>
  The effect on \<^verbatim>\<open>currentGesture\<close> and \<^verbatim>\<open>gestureCursor\<close>. Its three conditions
  test one gesture value, so at most one of them fires.
\<close>

definition gestureEffect :: "GestureType \<Rightarrow> (real \<times> real) option \<Rightarrow> Scene \<Rightarrow> Scene" where
  "gestureEffect currentGesture gestureCursor s =
    (let s1 = (if currentGesture = OPEN_PALM \<and> \<not> isExploded s then s\<lparr>isExploded := True\<rparr> else s);
         s2 = (if currentGesture = CLOSED_FIST
               then s1\<lparr>isExploded := False, zoomedPhotoIdRef := None\<rparr> else s1)
     in if currentGesture = PINCH then
          (case (gestureCursor, canvasRef s2) of
            (Some (gx, gy), Some canvas) \<Rightarrow>
              handleInteraction ((1 - gx) * rect_width canvas) (gy * rect_height canvas) False s2
          | _ \<Rightarrow> s2)
        else s2)"

subsection \<open>The life of the component\<close>

text \<open>
  What can happen to the scene: an animation frame (\<^verbatim>\<open>tick\<close>: physics, then drawing,
  which changes nothing), a mouse button, a gesture result, a new \<^verbatim>\<open>photos\<close> property, a
  window resize, a rebuild of the particles, and the canvas being mounted or resized.
\<close>

datatype Event =
  Tick
| MouseDown real real nat
| Gesture GestureType "(real \<times> real) option"
| Photos "Image list" "nat \<Rightarrow> real \<times> real \<times> real \<times> string"
| Resize real
| Particles "nat \<Rightarrow> nat \<Rightarrow> real"
| Mount Canvas

fun step :: "Event \<Rightarrow> Scene \<Rightarrow> Scene" where
  "step Tick s = updatePhysics s"
| "step (MouseDown clientX clientY button) s = onMouseDown clientX clientY button s"
| "step (Gesture g c) s = gestureEffect g c s"
| "step (Photos photos rnd) s = syncPhotos photos rnd s"
| "step (Resize innerWidth) s = handleResize innerWidth s"
| "step (Particles rnd) s = initParticles rnd s"
| "step (Mount canvas) s = s\<lparr>canvasRef := Some canvas\<rparr>"

fun run :: "Event list \<Rightarrow> Scene \<Rightarrow> Scene" where
  "run [] s = s"
| "run (e # es) s = run es (step e s)"

text \<open>The component before its first effect has run.\<close>

definition initialScene :: Scene where
  "initialScene =
    \<lparr>isExploded = False, particlesRef = [], photoObjectsRef = [], rotationRef = 0,
     zoomedPhotoIdRef = None, dimensions = \<lparr>dim_height = 600, dim_radius = 220\<rparr>,
     isMobile = False, canvasRef = None\<rparr>"

subsection \<open>The classification policy in the words of the specification\<close>

text \<open>
  The distance between two landmarks in the image plane: the source measures over the
  normalized \<open>x\<close> and \<open>y\<close> of the landmarks and never reads their \<open>z\<close>.
\<close>

definition landmark_distance :: "HandLandmark \<Rightarrow> HandLandmark \<Rightarrow> real" where
  "landmark_distance a b = sqrt ((x a - x b)\<^sup>2 + (y a - y b)\<^sup>2)"

definition mean_fingertip_wrist_distance :: "HandLandmark list \<Rightarrow> real" where
  "mean_fingertip_wrist_distance hand =
    (landmark_distance (hand ! 8) (hand ! 0) + landmark_distance (hand ! 12) (hand ! 0)
      + landmark_distance (hand ! 16) (hand ! 0) + landmark_distance (hand ! 20) (hand ! 0)) / 4"

definition classify :: "real \<Rightarrow> real \<Rightarrow> GestureType" where
  "classify thumb_index mean_dist =
    (if thumb_index < 0.05 then PINCH
     else if mean_dist < 0.25 then CLOSED_FIST
     else if mean_dist > 0.4 then OPEN_PALM
     else POINTING)"

text \<open>A synthetic hand of 21 landmarks: the wrist, the thumb tip and the four fingertips.\<close>

definition synthetic_hand :: "HandLandmark \<Rightarrow> HandLandmark \<Rightarrow> HandLandmark \<Rightarrow> HandLandmark list" where
  "synthetic_hand wrist thumb tip =
    (let f = \<lparr>x = 0, y = 0, z = 0\<rparr> in
      [wrist, f, f, f, thumb, f, f, f, tip, f, f, f, tip, f, f, f, tip, f, f, f, tip])"

text \<open>
  The fixture of the specification: the wrist at \<open>(1/2, 9/10)\<close>, the four fingertips
  straight above it at distance \<open>m\<close>, the thumb tip beside the index tip at distance \<open>t\<close>.
\<close>

definition fixture_hand :: "real \<Rightarrow> real \<Rightarrow> HandLandmark list" where
  "fixture_hand t m =
    synthetic_hand \<lparr>x = 1/2, y = 9/10, z = 0\<rparr> \<lparr>x = 1/2 + t, y = 9/10 - m, z = 0\<rparr>
      \<lparr>x = 1/2, y = 9/10 - m, z = 0\<rparr>"

subsection \<open>The photo targets in the words of the specification\<close>

text \<open>A photo eased towards a target position and a target opacity.\<close>

definition easePhotoToward :: "real \<times> real \<times> real \<Rightarrow> real \<Rightarrow> PhotoObject \<Rightarrow> PhotoObject" where
  "easePhotoToward target targetOpacity p =
    (case target of (tx, ty, tz) \<Rightarrow>
      p\<lparr>x := easeTo tx (x p), y := easeTo ty (y p), z := easeTo tz (z p),
        opacity := easeTo targetOpacity (opacity p)\<rparr>)"

definition explosionTarget :: "PhotoObject \<Rightarrow> real \<times> real \<times> real" where
  "explosionTarget p = (PhotoObject.targetX p, PhotoObject.targetY p, PhotoObject.targetZ p)"

definition restPosition :: "PhotoObject \<Rightarrow> real \<times> real \<times> real" where
  "restPosition p = (PhotoObject.baseX p, PhotoObject.baseY p, PhotoObject.baseZ p)"

subsection \<open>Example scenes\<close>

text \<open>
  A photo of a 400 by 300 image with the given identifier, position, explosion target
  and opacity.
\<close>

definition examplePhoto ::
  "string \<Rightarrow> real \<times> real \<times> real \<Rightarrow> real \<times> real \<times> real \<Rightarrow> real \<Rightarrow> PhotoObject"
where
  "examplePhoto name pos target op =
    (case (pos, target) of ((px, py, pz), (tx, ty, tz)) \<Rightarrow>
      \<lparr>x = px, y = py, z = pz, PhotoObject.ident = name,
       img = \<lparr>img_width = 400, img_height = 300\<rparr>, width = 120, height = 90,
       aspectRatio = 4/3,
       PhotoObject.targetX = tx, PhotoObject.targetY = ty, PhotoObject.targetZ = tz,
       PhotoObject.baseX = 0, PhotoObject.baseY = 0, PhotoObject.baseZ = 0, opacity = op\<rparr>)"

definition exampleParticle :: Particle where
  "exampleParticle =
    \<lparr>x = 3, y = 4, z = 5, Particle.ident = 7, ptype = GIFT,
     Particle.baseX = 3, Particle.baseY = 4, Particle.baseZ = 5,
     Particle.targetX = 300, Particle.targetY = - 400, Particle.targetZ = 120,
     color = ''#FFD700'', psize = 9/10, twinklePhase = 1, twinkleSpeed = 1/250,
     variant = 2\<rparr>"

definition exampleCanvas :: Canvas where
  "exampleCanvas =
    \<lparr>canvas_width = 1000, canvas_height = 800, context2d = True, rect_left = 0, rect_top = 0,
     rect_width = 1000, rect_height = 800\<rparr>"

text \<open>An exploded scene of two photos, the first of them zoomed.\<close>

definition zoomScene :: Scene where
  "zoomScene =
    \<lparr>isExploded = True, particlesRef = [],
     photoObjectsRef = [examplePhoto ''a'' (0, 0, 0) (100, 0, 0) 1,
                        examplePhoto ''b'' (0, 0, 0) (20, 40, 100) 1],
     rotationRef = 0, zoomedPhotoIdRef = Some ''a'',
     dimensions = \<lparr>dim_height = 600, dim_radius = 220\<rparr>, isMobile = False,
     canvasRef = Some exampleCanvas\<rparr>"

subsection \<open>Attributes fixed at creation\<close>

text \<open>Everything of a particle but its current position.\<close>

definition particle_attributes ::
  "Particle \<Rightarrow> nat \<times> ParticleType \<times> (real \<times> real \<times> real) \<times> (real \<times> real \<times> real)
     \<times> string \<times> real \<times> real \<times> real \<times> nat"
where
  "particle_attributes p =
    (Particle.ident p, ptype p,
     (Particle.baseX p, Particle.baseY p, Particle.baseZ p),
     (Particle.targetX p, Particle.targetY p, Particle.targetZ p),
     color p, psize p, twinklePhase p, twinkleSpeed p, variant p)"

text \<open>Everything of a photo but its current position and opacity.\<close>

definition photo_attributes ::
  "PhotoObject \<Rightarrow> string \<times> Image \<times> real \<times> real \<times> real \<times> (real \<times> real \<times> real)
     \<times> (real \<times> real \<times> real)"
where
  "photo_attributes p =
    (PhotoObject.ident p, img p, width p, height p, aspectRatio p,
     (PhotoObject.baseX p, PhotoObject.baseY p, PhotoObject.baseZ p),
     (PhotoObject.targetX p, PhotoObject.targetY p, PhotoObject.targetZ p))"

subsection \<open>The kind of a particle in the words of the specification\<close>

definition kindOfDraw :: "real \<Rightarrow> ParticleType" where
  "kindOfDraw r = (if r < 0.10 then SPARKLE else if r < 0.18 then GIFT else FLOWER)"

text \<open>Draws for three particles: the kind draws are 0.05, 0.15 and 0.5.\<close>

definition exampleDraws :: "nat \<Rightarrow> nat \<Rightarrow> real" where
  "exampleDraws i j =
    (if j = 4 then (if i = 0 then 0.05 else if i = 1 then 0.15 else 0.5) else 0.25)"

text \<open>
  A session: the canvas is mounted, a photo arrives, a click explodes the tree, and two
  frames pass.
\<close>

definition exampleSession :: "Event list" where
  "exampleSession =
    [Mount exampleCanvas,
     Photos [\<lparr>img_width = 400, img_height = 300\<rparr>] (\<lambda>k. (1/2, 0, 1/2, ''k3x9q0w2z'')),
     MouseDown 10 10 0, Tick, Tick]"

subsection \<open>The range of an opacity\<close>

definition opacity_in_range :: "PhotoObject \<Rightarrow> bool" where
  "opacity_in_range p = (0 \<le> opacity p \<and> opacity p \<le> 1)"

subsection \<open>Depth in the words of the specification\<close>

text \<open>The \<open>z\<close> of a point turned about the vertical axis by the angle \<open>r\<close>.\<close>

definition rotatedZ :: "real \<Rightarrow> 'a Point3D_scheme \<Rightarrow> real" where
  "rotatedZ r v = z v * cos r + x v * sin r"

text \<open>A scene at rotation 0 with one particle and two photos, the nearer one zoomed.\<close>

definition depthScene :: Scene where
  "depthScene =
    zoomScene\<lparr>particlesRef := [exampleParticle],
      photoObjectsRef := [examplePhoto ''a'' (0, 0, - 100) (100, 0, 0) 1,
                          examplePhoto ''b'' (0, 0, 50) (20, 40, 100) 1]\<rparr>"

subsection \<open>Hit testing in the words of the specification\<close>

text \<open>
  The rectangle a photo projects to under the rotation \<open>r\<close>, for a photo in front of
  the camera plane: it is centred on the projection of the rotated position and has the
  photo's width and height times the perspective scale. A photo on or behind the camera
  plane projects to nothing.
\<close>

definition perspectiveScale :: "real \<Rightarrow> 'a Point3D_scheme \<Rightarrow> real" where
  "perspectiveScale r p = FOCAL_LENGTH / (FOCAL_LENGTH + rotatedZ r p)"

definition projectedRectContains :: "Canvas \<Rightarrow> real \<Rightarrow> real \<times> real \<Rightarrow> PhotoObject \<Rightarrow> bool" where
  "projectedRectContains canvas r point p =
    (case point of (px, py) \<Rightarrow>
      let scale = perspectiveScale r p;
          x2d = (x p * cos r - z p * sin r) * scale + canvas_width canvas / 2;
          y2d = y p * scale + canvas_height canvas / 2;
          w = width p * scale;
          h = height p * scale
      in 0 < FOCAL_LENGTH + rotatedZ r p
         \<and> x2d - w / 2 \<le> px \<and> px \<le> x2d + w / 2
         \<and> y2d - h / 2 \<le> py \<and> py \<le> y2d + h / 2)"

text \<open>
  The candidates of a hit test as the source filters them, nearest first: the photos
  more than half opaque.
\<close>

definition hitCandidates :: "Scene \<Rightarrow> PhotoObject list" where
  "hitCandidates s =
    sort_key (rotatedZ (rotationRef s)) (filter (\<lambda>p. 1/2 < opacity p) (photoObjectsRef s))"

text \<open>The candidates as the specification states them: the photos at least half opaque.\<close>

definition claimedCandidates :: "Scene \<Rightarrow> PhotoObject list" where
  "claimedCandidates s =
    sort_key (rotatedZ (rotationRef s)) (filter (\<lambda>p. 1/2 \<le> opacity p) (photoObjectsRef s))"

text \<open>
  An exploded scene with nothing zoomed and two photos over the centre of the canvas,
  the second nearer than the first, and a third, nearer still, one third opaque.
\<close>

definition overlapScene :: Scene where
  "overlapScene =
    zoomScene\<lparr>zoomedPhotoIdRef := None,
      photoObjectsRef := [examplePhoto ''a'' (0, 0, 100) (100, 0, 0) (3/4),
                          examplePhoto ''b'' (0, 0, - 100) (20, 40, 100) (3/4),
                          examplePhoto ''c'' (0, 0, - 200) (20, 40, 100) (1/3)]\<rparr>"

text \<open>
  The opacities a photo can have: 0 at creation, then eased towards 0 or towards 1.
\<close>

inductive reachable_opacity :: "real \<Rightarrow> bool" where
  created: "reachable_opacity 0"
| fading: "reachable_opacity v \<Longrightarrow> reachable_opacity (easeTo 0 v)"
| showing: "reachable_opacity v \<Longrightarrow> reachable_opacity (easeTo 1 v)"

text \<open>
  A session: the canvas is mounted, one photo arrives whose identifier draw yields the
  empty string (\<^verbatim>\<open>Math.random()\<close> returning 0, as the other three draws), a click
  explodes the tree, and fourteen frames pass.
\<close>

definition emptyIdSession :: "Event list" where
  "emptyIdSession =
    [Mount exampleCanvas,
     Photos [\<lparr>img_width = 400, img_height = 300\<rparr>] (\<lambda>k. (0, 0, 0, '''')),
     MouseDown 10 10 0,
     Tick, Tick, Tick, Tick, Tick, Tick, Tick, Tick, Tick, Tick, Tick, Tick, Tick, Tick]"
definition emptyIdScene :: Scene where
  "emptyIdScene = run emptyIdSession initialScene"

text \<open>The photo of that scene: fourteen frames on its way from the origin to \<open>(0, 0, - 200)\<close>.\<close>

definition emptyIdPhoto :: PhotoObject where
  "emptyIdPhoto =
    \<lparr>x = 0, y = 0, z = - 200 * (1 - (19/20) ^ 14), PhotoObject.ident = [],
     img = \<lparr>img_width = 400, img_height = 300\<rparr>, width = 120, height = 90,
     aspectRatio = 4/3,
     PhotoObject.targetX = 0, PhotoObject.targetY = 0, PhotoObject.targetZ = - 200,
     PhotoObject.baseX = 0, PhotoObject.baseY = 0, PhotoObject.baseZ = 0,
     opacity = 1 - (19/20) ^ 14\<rparr>"

section \<open>The gesture classifier\<close>

lemma detectGesture_hand:
  assumes "detectForVideo video = Some (hand # others)" and "20 < length hand"
  shows "detectGesture (Some detectForVideo) video =
    Inr \<lparr>gesture = classify (landmark_distance (hand ! 4) (hand ! 8))
            (mean_fingertip_wrist_distance hand),
         cursor = Some (x (hand ! 8), y (hand ! 8))\<rparr>"
  using assms
  by (simp add: detectGesture_def classify_def landmark_distance_def
      mean_fingertip_wrist_distance_def Let_def)

text \<open>
  C1. In a frame with a detected hand (the tracker returns at least one hand, of the 21
  landmarks it always gives), the gesture is PINCH when the distance from the thumb tip to
  the index tip is below 0.05, whatever the other distances; otherwise CLOSED_FIST when
  the mean distance of the four fingertips to the wrist is below 0.25; otherwise OPEN_PALM
  when that mean is above 0.4; otherwise POINTING; and the cursor is the index fingertip's
  \<open>(x, y)\<close>. With no hand (no tracker yet, no result, or an empty list of hands) the
  gesture is NONE and the cursor is null. Distances are Euclidean in the image plane.
\<close>

theorem detectGesture_priority:
  "(detectForVideo video = Some (hand # others) \<and> 20 < length hand \<longrightarrow>
      detectGesture (Some detectForVideo) video =
        Inr \<lparr>gesture =
              (if landmark_distance (hand ! 4) (hand ! 8) < 0.05 then PINCH
               else if mean_fingertip_wrist_distance hand < 0.25 then CLOSED_FIST
               else if mean_fingertip_wrist_distance hand > 0.4 then OPEN_PALM
               else POINTING),
             cursor = Some (x (hand ! 8), y (hand ! 8))\<rparr>)
   \<and> (detectForVideo video = None \<or> detectForVideo video = Some [] \<longrightarrow>
      detectGesture (Some detectForVideo) video = Inr \<lparr>gesture = NONE, cursor = None\<rparr>)
   \<and> detectGesture None video = Inr \<lparr>gesture = NONE, cursor = None\<rparr>"
proof (intro conjI impI)
  assume "detectForVideo video = Some (hand # others) \<and> 20 < length hand"
  then show "detectGesture (Some detectForVideo) video =
        Inr \<lparr>gesture =
              (if landmark_distance (hand ! 4) (hand ! 8) < 0.05 then PINCH
               else if mean_fingertip_wrist_distance hand < 0.25 then CLOSED_FIST
               else if mean_fingertip_wrist_distance hand > 0.4 then OPEN_PALM
               else POINTING),
             cursor = Some (x (hand ! 8), y (hand ! 8))\<rparr>"
    using detectGesture_hand [of detectForVideo video hand others]
    by (simp add: classify_def)
next
  assume "detectForVideo video = None \<or> detectForVideo video = Some []"
  then show "detectGesture (Some detectForVideo) video = Inr \<lparr>gesture = NONE, cursor = None\<rparr>"
    by (auto simp: detectGesture_def)
next
  show "detectGesture None video = Inr \<lparr>gesture = NONE, cursor = None\<rparr>"
    by (simp add: detectGesture_def)
qed

lemma fixture_hand_facts:
  "length (fixture_hand t m) = 21"
  "x (fixture_hand t m ! 8) = 1/2"
  "y (fixture_hand t m ! 8) = 9/10 - m"
  "landmark_distance (fixture_hand t m ! 4) (fixture_hand t m ! 8) = \<bar>t\<bar>"
  "mean_fingertip_wrist_distance (fixture_hand t m) = \<bar>m\<bar>"
  by (simp_all add: fixture_hand_def synthetic_hand_def Let_def landmark_distance_def
      mean_fingertip_wrist_distance_def)

theorem detectGesture_priority_witness:
  "detectGesture (Some (\<lambda>_. Some [fixture_hand (3/100) (1/2)])) () =
      Inr \<lparr>gesture = PINCH, cursor = Some (1/2, 2/5)\<rparr>
   \<and> detectGesture (Some (\<lambda>_. Some [fixture_hand (1/5) (3/20)])) () =
      Inr \<lparr>gesture = CLOSED_FIST, cursor = Some (1/2, 3/4)\<rparr>
   \<and> detectGesture (Some (\<lambda>_. Some [fixture_hand (1/5) (1/2)])) () =
      Inr \<lparr>gesture = OPEN_PALM, cursor = Some (1/2, 2/5)\<rparr>
   \<and> detectGesture (Some (\<lambda>_. Some [fixture_hand (1/5) (3/10)])) () =
      Inr \<lparr>gesture = POINTING, cursor = Some (1/2, 3/5)\<rparr>
   \<and> detectGesture (Some (\<lambda>_. Some [])) () = Inr \<lparr>gesture = NONE, cursor = None\<rparr>
   \<and> detectGesture (Some (\<lambda>_. None)) () = Inr \<lparr>gesture = NONE, cursor = None\<rparr>"
  using
    detectGesture_priority [of "\<lambda>_. Some [fixture_hand (3/100) (1/2)]" "()" "fixture_hand (3/100) (1/2)" "[]"]
    detectGesture_priority [of "\<lambda>_. Some [fixture_hand (1/5) (3/20)]" "()" "fixture_hand (1/5) (3/20)" "[]"]
    detectGesture_priority [of "\<lambda>_. Some [fixture_hand (1/5) (1/2)]" "()" "fixture_hand (1/5) (1/2)" "[]"]
    detectGesture_priority [of "\<lambda>_. Some [fixture_hand (1/5) (3/10)]" "()" "fixture_hand (1/5) (3/10)" "[]"]
    detectGesture_priority [of "\<lambda>_. Some []" "()"]
    detectGesture_priority [of "\<lambda>_. None" "()"]
  by (simp add: fixture_hand_facts)

section \<open>Easing\<close>

lemma easeTo_diff: "easeTo t v - t = (19/20) * (v - t)"
  by (simp add: easeTo_def ease_def field_simps)

lemma easeTo_abs: "\<bar>easeTo t v - t\<bar> = (19/20) * \<bar>v - t\<bar>"
proof -
  have "\<bar>easeTo t v - t\<bar> = \<bar>(19/20) * (v - t)\<bar>"
    by (simp only: easeTo_diff)
  also have "\<dots> = \<bar>19/20\<bar> * \<bar>v - t\<bar>"
    by (rule abs_mult)
  finally show ?thesis by simp
qed

lemma easeTo_abs_le: "\<bar>easeTo t v - t\<bar> \<le> \<bar>v - t\<bar>"
proof -
  have "(19/20) * \<bar>v - t\<bar> \<le> 1 * \<bar>v - t\<bar>"
    by (intro mult_right_mono) simp_all
  then show ?thesis by (simp add: easeTo_abs)
qed

text \<open>After \<open>n\<close> steps the distance to the target is \<open>(19/20)\<^sup>n\<close> of what it was.\<close>

lemma easeTo_funpow_diff: "(easeTo t ^^ n) v - t = (19/20) ^ n * (v - t)"
proof (induction n)
  case 0
  show ?case by simp
next
  case (Suc n)
  have "(easeTo t ^^ Suc n) v - t = easeTo t ((easeTo t ^^ n) v) - t" by simp
  also have "\<dots> = (19/20) * ((easeTo t ^^ n) v - t)" by (rule easeTo_diff)
  also have "\<dots> = (19/20) ^ Suc n * (v - t)" by (simp add: Suc.IH)
  finally show ?case .
qed

lemma ease_power_200: "(19/20::real) ^ 200 * 28 < 1/1000"
  by (simp add: power_divide)

lemma ease_power_mono: "200 \<le> n \<Longrightarrow> (19/20::real) ^ n \<le> (19/20) ^ 200"
  by (rule power_decreasing) simp_all

text \<open>The positions of a particle over \<open>n\<close> frames with the explode flag unchanged.\<close>

lemma updateParticle_fields:
  "Particle.targetX (updateParticle e p) = Particle.targetX p"
  "Particle.targetY (updateParticle e p) = Particle.targetY p"
  "Particle.targetZ (updateParticle e p) = Particle.targetZ p"
  "Particle.baseX (updateParticle e p) = Particle.baseX p"
  "Particle.baseY (updateParticle e p) = Particle.baseY p"
  "Particle.baseZ (updateParticle e p) = Particle.baseZ p"
  "x (updateParticle e p) = easeTo (if e then Particle.targetX p else Particle.baseX p) (x p)"
  "y (updateParticle e p) = easeTo (if e then Particle.targetY p else Particle.baseY p) (y p)"
  "z (updateParticle e p) = easeTo (if e then Particle.targetZ p else Particle.baseZ p) (z p)"
  by (simp_all add: updateParticle_def)

lemma updateParticle_funpow_fields:
  "Particle.targetX ((updateParticle e ^^ n) p) = Particle.targetX p
   \<and> Particle.targetY ((updateParticle e ^^ n) p) = Particle.targetY p
   \<and> Particle.targetZ ((updateParticle e ^^ n) p) = Particle.targetZ p
   \<and> Particle.baseX ((updateParticle e ^^ n) p) = Particle.baseX p
   \<and> Particle.baseY ((updateParticle e ^^ n) p) = Particle.baseY p
   \<and> Particle.baseZ ((updateParticle e ^^ n) p) = Particle.baseZ p"
  by (induction n) (simp_all add: updateParticle_fields)

lemma updateParticle_funpow_x:
  "x ((updateParticle e ^^ n) p)
     = (easeTo (if e then Particle.targetX p else Particle.baseX p) ^^ n) (x p)"
  by (induction n) (simp_all add: updateParticle_fields updateParticle_funpow_fields)

lemma updateParticle_funpow_y:
  "y ((updateParticle e ^^ n) p)
     = (easeTo (if e then Particle.targetY p else Particle.baseY p) ^^ n) (y p)"
  by (induction n) (simp_all add: updateParticle_fields updateParticle_funpow_fields)

lemma updateParticle_funpow_z:
  "z ((updateParticle e ^^ n) p)
     = (easeTo (if e then Particle.targetZ p else Particle.baseZ p) ^^ n) (z p)"
  by (induction n) (simp_all add: updateParticle_fields updateParticle_funpow_fields)

text \<open>
  C2. The update \<open>new = old + (target - old) * 0.05\<close> is what a physics step does to every
  coordinate of a particle. With the target fixed, for every starting value \<open>v\<close>: a step
  never increases the distance to the target, at the first step and at every later one;
  the value never passes the target, from below or from above; and from any distance of at
  most 28 the value is within \<open>1/1000\<close> of the target after 200 steps and stays there.
\<close>

theorem easing_converges:
  "x (updateParticle e p) = easeTo (if e then Particle.targetX p else Particle.baseX p) (x p)
   \<and> x ((updateParticle e ^^ n) p)
       = (easeTo (if e then Particle.targetX p else Particle.baseX p) ^^ n) (x p)
   \<and> easeTo t v = v + (t - v) * 0.05
   \<and> \<bar>easeTo t v - t\<bar> \<le> \<bar>v - t\<bar>
   \<and> \<bar>(easeTo t ^^ Suc n) v - t\<bar> \<le> \<bar>(easeTo t ^^ n) v - t\<bar>
   \<and> (v \<le> t \<longrightarrow> (easeTo t ^^ n) v \<le> t)
   \<and> (t \<le> v \<longrightarrow> t \<le> (easeTo t ^^ n) v)
   \<and> (\<bar>v - t\<bar> \<le> 28 \<and> 200 \<le> n \<longrightarrow> \<bar>(easeTo t ^^ n) v - t\<bar> < 1/1000)"
proof (intro conjI impI)
  show "x (updateParticle e p) = easeTo (if e then Particle.targetX p else Particle.baseX p) (x p)"
    by (simp add: updateParticle_def)
  show "x ((updateParticle e ^^ n) p)
       = (easeTo (if e then Particle.targetX p else Particle.baseX p) ^^ n) (x p)"
    by (rule updateParticle_funpow_x)
  show "easeTo t v = v + (t - v) * 0.05"
    by (simp add: easeTo_def ease_def)
  show "\<bar>easeTo t v - t\<bar> \<le> \<bar>v - t\<bar>"
    by (rule easeTo_abs_le)
  show "\<bar>(easeTo t ^^ Suc n) v - t\<bar> \<le> \<bar>(easeTo t ^^ n) v - t\<bar>"
    using easeTo_abs_le [of t "(easeTo t ^^ n) v"] by simp
next
  assume "v \<le> t"
  then have "(19/20) ^ n * (v - t) \<le> 0"
    by (simp add: mult_le_0_iff)
  then show "(easeTo t ^^ n) v \<le> t"
    using easeTo_funpow_diff [where t = t and n = n and v = v] by linarith
next
  assume "t \<le> v"
  then have "0 \<le> (19/20) ^ n * (v - t)"
    by simp
  then show "t \<le> (easeTo t ^^ n) v"
    using easeTo_funpow_diff [where t = t and n = n and v = v] by linarith
next
  assume a: "\<bar>v - t\<bar> \<le> 28 \<and> 200 \<le> n"
  have "\<bar>(easeTo t ^^ n) v - t\<bar> = (19/20) ^ n * \<bar>v - t\<bar>"
    by (simp add: easeTo_funpow_diff abs_mult)
  also have "\<dots> \<le> (19/20) ^ 200 * 28"
    using a ease_power_mono [of n] by (intro mult_mono) simp_all
  also have "\<dots> < 1/1000"
    by (rule ease_power_200)
  finally show "\<bar>(easeTo t ^^ n) v - t\<bar> < 1/1000" .
qed

theorem easing_converges_witness:
  "(easeTo 1 ^^ 200) 0 \<le> 1 \<and> \<bar>(easeTo 1 ^^ 200) 0 - 1\<bar> < 1/1000
   \<and> - 20 \<le> (easeTo (- 20) ^^ 200) 8 \<and> \<bar>(easeTo (- 20) ^^ 200) 8 - (- 20)\<bar> < 1/1000"
proof -
  note up = easing_converges [where t = 1 and v = 0 and n = 200 and e = True and p = exampleParticle]
  note down = easing_converges [where t = "- 20" and v = 8 and n = 200 and e = True and p = exampleParticle]
  have below: "(0::real) \<le> 1" and above: "(- 20::real) \<le> 8"
    and near_up: "\<bar>(0::real) - 1\<bar> \<le> 28 \<and> (200::nat) \<le> 200"
    and near_down: "\<bar>(8::real) - (- 20)\<bar> \<le> 28 \<and> (200::nat) \<le> 200"
    by simp_all
  have "(easeTo 1 ^^ 200) 0 \<le> 1"
    using up below by blast
  moreover have "\<bar>(easeTo 1 ^^ 200) 0 - 1\<bar> < 1/1000"
    using up near_up by blast
  moreover have "- 20 \<le> (easeTo (- 20) ^^ 200) 8"
    using down above by blast
  moreover have "\<bar>(easeTo (- 20) ^^ 200) 8 - (- 20)\<bar> < 1/1000"
    using down near_down by blast
  ultimately show ?thesis by blast
qed

text \<open>
  The bound on the starting distance is needed: from a distance of 30, 200 steps do not
  reach \<open>1/1000\<close>.
\<close>

lemma easing_far_start: "\<not> \<bar>(easeTo 0 ^^ 200) 30 - 0\<bar> < 1/1000"
proof -
  have "(easeTo 0 ^^ 200) 30 - 0 = (19/20) ^ 200 * (30 - 0)"
    by (rule easeTo_funpow_diff)
  then have "(easeTo 0 ^^ 200) 30 = (19/20) ^ 200 * 30" by simp
  then show ?thesis by (simp add: power_divide)
qed

section \<open>The targets of the photos\<close>

text \<open>
  C3, as the specification states it, fails: with a photo zoomed, another photo is eased
  towards three times the \<open>x\<close> and \<open>y\<close> of its explosion target but towards the \<open>z\<close> of
  the explosion target itself. In \<^term>\<open>zoomScene\<close> the second photo, at the origin with
  \<open>targetZ = 100\<close>, moves to \<open>z = 5\<close>; eased towards \<open>3 * 100\<close> it would move to \<open>z = 15\<close>.
\<close>

theorem pushed_target_z_counterexample:
  "z (photoObjectsRef (updatePhysics zoomScene) ! 1) = 5
   \<and> z (easePhotoToward (3 * 20, 3 * 40, 3 * 100) 0 (photoObjectsRef zoomScene ! 1)) = 15"
  by (simp add: updatePhysics_def zoomScene_def updatePhoto_def examplePhoto_def truthy_def
      easePhotoToward_def easeTo_def ease_def FOCAL_LENGTH_def)

text \<open>
  C3, amended. In every physics step every photo is eased, position and opacity, towards:
  the point \<open>(0, 0, 250 - FOCAL_LENGTH)\<close> and opacity 1 when it is the zoomed photo; three
  times the \<open>x\<close> and \<open>y\<close> of its explosion target, the unscaled \<open>z\<close> of its explosion
  target, and opacity 0 when another photo is zoomed; its explosion target and opacity 1
  when no photo is zoomed and the scene is exploded; its rest position and opacity 0 when
  no photo is zoomed and the scene is collapsed.
\<close>

theorem updatePhoto_targets:
  "(zoomed = Some (PhotoObject.ident p) \<longrightarrow>
      updatePhoto zoomed e p = easePhotoToward (0, 0, - FOCAL_LENGTH + 250) 1 p)
   \<and> (zoomed = Some zid \<and> zid \<noteq> [] \<and> zid \<noteq> PhotoObject.ident p \<longrightarrow>
      updatePhoto zoomed e p =
        easePhotoToward (3 * PhotoObject.targetX p, 3 * PhotoObject.targetY p, PhotoObject.targetZ p) 0 p)
   \<and> (zoomed = None \<and> e \<longrightarrow> updatePhoto zoomed e p = easePhotoToward (explosionTarget p) 1 p)
   \<and> (zoomed = None \<and> \<not> e \<longrightarrow> updatePhoto zoomed e p = easePhotoToward (restPosition p) 0 p)
   \<and> photoObjectsRef (updatePhysics s) =
        map (updatePhoto (zoomedPhotoIdRef s) (isExploded s)) (photoObjectsRef s)"
  by (auto simp: updatePhoto_def easePhotoToward_def truthy_def explosionTarget_def
      restPosition_def updatePhysics_def mult.commute)

theorem updatePhoto_targets_witness:
  "photoObjectsRef (updatePhysics zoomScene) =
     [easePhotoToward (0, 0, - 550) 1 (examplePhoto ''a'' (0, 0, 0) (100, 0, 0) 1),
      easePhotoToward (60, 120, 100) 0 (examplePhoto ''b'' (0, 0, 0) (20, 40, 100) 1)]
   \<and> updatePhoto None True (examplePhoto ''b'' (0, 0, 0) (20, 40, 100) 0)
       = easePhotoToward (20, 40, 100) 1 (examplePhoto ''b'' (0, 0, 0) (20, 40, 100) 0)
   \<and> updatePhoto None False (examplePhoto ''b'' (1, 1, 1) (20, 40, 100) 1)
       = easePhotoToward (0, 0, 0) 0 (examplePhoto ''b'' (1, 1, 1) (20, 40, 100) 1)"
  using
    updatePhoto_targets [where zoomed = "Some ''a''" and p = "examplePhoto ''a'' (0, 0, 0) (100, 0, 0) 1"
      and e = True and s = zoomScene and zid = "''a''"]
    updatePhoto_targets [where zoomed = "Some ''a''" and p = "examplePhoto ''b'' (0, 0, 0) (20, 40, 100) 1"
      and e = True and s = zoomScene and zid = "''a''"]
    updatePhoto_targets [where zoomed = None and p = "examplePhoto ''b'' (0, 0, 0) (20, 40, 100) 0"
      and e = True and s = zoomScene]
    updatePhoto_targets [where zoomed = None and p = "examplePhoto ''b'' (1, 1, 1) (20, 40, 100) 1"
      and e = False and s = zoomScene]
  by (simp add: zoomScene_def examplePhoto_def FOCAL_LENGTH_def explosionTarget_def restPosition_def)

section \<open>What the events leave alone\<close>

lemma handleInteraction_keeps:
  "rotationRef (handleInteraction ix iy r s) = rotationRef s"
  "photoObjectsRef (handleInteraction ix iy r s) = photoObjectsRef s"
  "particlesRef (handleInteraction ix iy r s) = particlesRef s"
  by (simp_all add: handleInteraction_def Let_def split: option.splits)

lemma onMouseDown_keeps:
  "rotationRef (onMouseDown cx cy b s) = rotationRef s"
  "photoObjectsRef (onMouseDown cx cy b s) = photoObjectsRef s"
  "particlesRef (onMouseDown cx cy b s) = particlesRef s"
  by (simp_all add: onMouseDown_def handleInteraction_keeps split: option.splits)

lemma gestureEffect_keeps:
  "rotationRef (gestureEffect g c s) = rotationRef s"
  "photoObjectsRef (gestureEffect g c s) = photoObjectsRef s"
  "particlesRef (gestureEffect g c s) = particlesRef s"
  by (simp_all add: gestureEffect_def Let_def handleInteraction_keeps
      split: option.splits prod.splits)

lemma other_events_keep:
  "rotationRef (syncPhotos photos rnd s) = rotationRef s"
  "rotationRef (handleResize w s) = rotationRef s"
  "rotationRef (initParticles rnd' s) = rotationRef s"
  "photoObjectsRef (handleResize w s) = photoObjectsRef s"
  "photoObjectsRef (initParticles rnd' s) = photoObjectsRef s"
  by (simp_all add: syncPhotos_def handleResize_def initParticles_def Let_def)

lemma updatePhysics_keeps:
  "isExploded (updatePhysics s) = isExploded s"
  "zoomedPhotoIdRef (updatePhysics s) = zoomedPhotoIdRef s"
  "dimensions (updatePhysics s) = dimensions s"
  "isMobile (updatePhysics s) = isMobile s"
  "canvasRef (updatePhysics s) = canvasRef s"
  by (simp_all add: updatePhysics_def)

section \<open>Rotation\<close>

lemma updatePhysics_rotation:
  "rotationRef (updatePhysics s) =
    (if truthy (zoomedPhotoIdRef s) then rotationRef s
     else if isExploded s then rotationRef s + 1/1000 else rotationRef s + 3/1000)"
  by (simp add: updatePhysics_def)

lemma step_rotation: "rotationRef s \<le> rotationRef (step ev s)"
  by (cases ev)
    (simp_all add: updatePhysics_rotation onMouseDown_keeps gestureEffect_keeps other_events_keep)

lemma run_rotation: "rotationRef s \<le> rotationRef (run evs s)"
proof (induction evs arbitrary: s)
  case Nil
  show ?case by simp
next
  case (Cons ev evs)
  have "rotationRef s \<le> rotationRef (step ev s)"
    by (rule step_rotation)
  also have "\<dots> \<le> rotationRef (run evs (step ev s))"
    by (rule Cons.IH)
  finally show ?case by simp
qed

text \<open>
  C5. A physics step leaves the rotation angle as it is when a photo is zoomed; otherwise
  it adds 0.001 to it when the scene is exploded and 0.003 when it is collapsed, so the
  increment is positive and strictly smaller while exploded. Nothing else writes the
  angle, so over every sequence of events, frames among them, it never decreases.
\<close>

theorem rotation_advances:
  "(truthy (zoomedPhotoIdRef s) \<longrightarrow> rotationRef (updatePhysics s) = rotationRef s)
   \<and> (\<not> truthy (zoomedPhotoIdRef s) \<and> isExploded s \<longrightarrow>
        rotationRef (updatePhysics s) = rotationRef s + 0.001)
   \<and> (\<not> truthy (zoomedPhotoIdRef s) \<and> \<not> isExploded s \<longrightarrow>
        rotationRef (updatePhysics s) = rotationRef s + 0.003)
   \<and> (\<not> truthy (zoomedPhotoIdRef s) \<and> \<not> truthy (zoomedPhotoIdRef s')
        \<and> isExploded s \<and> \<not> isExploded s' \<longrightarrow>
        0 < rotationRef (updatePhysics s) - rotationRef s
        \<and> rotationRef (updatePhysics s) - rotationRef s
            < rotationRef (updatePhysics s') - rotationRef s')
   \<and> rotationRef s \<le> rotationRef (run evs s)
   \<and> rotationRef (run evs s) \<le> rotationRef (run (evs @ evs') s)"
proof (intro conjI impI)
  show "rotationRef s \<le> rotationRef (run evs s)"
    by (rule run_rotation)
  have "run (evs @ evs') s = run evs' (run evs s)"
    by (induction evs arbitrary: s) simp_all
  then show "rotationRef (run evs s) \<le> rotationRef (run (evs @ evs') s)"
    by (simp add: run_rotation)
qed (simp_all add: updatePhysics_rotation)

theorem rotation_advances_witness:
  "rotationRef (updatePhysics zoomScene) = 0
   \<and> rotationRef (updatePhysics (zoomScene\<lparr>zoomedPhotoIdRef := None\<rparr>)) = 1/1000
   \<and> rotationRef (updatePhysics initialScene) = 3/1000
   \<and> rotationRef (run exampleSession initialScene) = 2/1000"
proof -
  note zoomed = rotation_advances [where s = zoomScene and s' = initialScene and evs = "[]" and evs' = "[]"]
  note exploded = rotation_advances [where s = "zoomScene\<lparr>zoomedPhotoIdRef := None\<rparr>"
      and s' = initialScene and evs = "[]" and evs' = "[]"]
  note collapsed = rotation_advances [where s = initialScene and s' = initialScene
      and evs = "[]" and evs' = "[]"]
  have "rotationRef (updatePhysics zoomScene) = 0"
    using zoomed by (simp add: zoomScene_def truthy_def)
  moreover have "rotationRef (updatePhysics (zoomScene\<lparr>zoomedPhotoIdRef := None\<rparr>)) = 1/1000"
    using exploded by (simp add: zoomScene_def truthy_def)
  moreover have "rotationRef (updatePhysics initialScene) = 3/1000"
    using collapsed by (simp add: initialScene_def truthy_def)
  moreover have "rotationRef (run exampleSession initialScene) = 2/1000"
    by (simp add: exampleSession_def initialScene_def onMouseDown_def handleInteraction_def
        syncPhotos_def updatePhysics_rotation updatePhysics_keeps truthy_def)
  ultimately show ?thesis by blast
qed

section \<open>Cancelling\<close>

text \<open>
  C8. Whatever the scene, a secondary action (\<open>handleInteraction\<close> with the right-click
  flag, which a mouse button 2 on the canvas gives) and a CLOSED_FIST gesture each set the
  explode flag to false and the zoomed photo id to null, and change nothing else.
\<close>

theorem cancel_collapses:
  "handleInteraction inputX inputY True s = s\<lparr>isExploded := False, zoomedPhotoIdRef := None\<rparr>
   \<and> isExploded (handleInteraction inputX inputY True s) = False
   \<and> zoomedPhotoIdRef (handleInteraction inputX inputY True s) = None
   \<and> gestureEffect CLOSED_FIST gestureCursor s = s\<lparr>isExploded := False, zoomedPhotoIdRef := None\<rparr>
   \<and> isExploded (gestureEffect CLOSED_FIST gestureCursor s) = False
   \<and> zoomedPhotoIdRef (gestureEffect CLOSED_FIST gestureCursor s) = None
   \<and> (canvasRef s = Some canvas \<longrightarrow>
        onMouseDown clientX clientY 2 s = s\<lparr>isExploded := False, zoomedPhotoIdRef := None\<rparr>)"
  by (simp add: handleInteraction_def gestureEffect_def onMouseDown_def)

theorem cancel_collapses_witness:
  "onMouseDown 10 10 2 zoomScene = zoomScene\<lparr>isExploded := False, zoomedPhotoIdRef := None\<rparr>
   \<and> gestureEffect CLOSED_FIST (Some (1/2, 1/2)) zoomScene
       = zoomScene\<lparr>isExploded := False, zoomedPhotoIdRef := None\<rparr>
   \<and> handleInteraction 10 10 True initialScene = initialScene"
  using cancel_collapses [where s = zoomScene and canvas = exampleCanvas and clientX = 10
      and clientY = 10 and gestureCursor = "Some (1/2, 1/2)"]
    cancel_collapses [where s = initialScene and inputX = 10 and inputY = 10]
  by (simp add: zoomScene_def initialScene_def)

section \<open>What a physics step changes\<close>

lemma updateParticle_attributes: "particle_attributes (updateParticle e p) = particle_attributes p"
  by (simp add: particle_attributes_def updateParticle_def)

lemma updatePhoto_attributes: "photo_attributes (updatePhoto zoomed e p) = photo_attributes p"
  by (simp add: photo_attributes_def updatePhoto_def split: prod.splits)

lemma updatePhysics_attributes:
  "map particle_attributes (particlesRef (updatePhysics s)) = map particle_attributes (particlesRef s)"
  "map photo_attributes (photoObjectsRef (updatePhysics s)) = map photo_attributes (photoObjectsRef s)"
  by (simp_all add: updatePhysics_def updateParticle_attributes updatePhoto_attributes comp_def)

lemma updatePhysics_funpow_attributes:
  "map particle_attributes (particlesRef ((updatePhysics ^^ n) s)) = map particle_attributes (particlesRef s)
   \<and> map photo_attributes (photoObjectsRef ((updatePhysics ^^ n) s)) = map photo_attributes (photoObjectsRef s)"
  by (induction n) (simp_all add: updatePhysics_attributes)

text \<open>
  C9. A physics step changes nothing of a particle but \<open>x\<close>, \<open>y\<close>, \<open>z\<close>, and nothing of
  a photo but \<open>x\<close>, \<open>y\<close>, \<open>z\<close> and \<open>opacity\<close>: put the old position (and opacity) back
  and the entity is the one before the step. In the scene, after one step and after any
  number of steps, the lists of particles and of photos have the same entities in the
  same order with the same identifier, kind, rest position, explosion target, colour,
  size, twinkle parameters and variant, and the same identifier, image, width, height,
  aspect ratio, rest position and explosion target.
\<close>

theorem physics_moves_only:
  "(updateParticle e p)\<lparr>x := x p, y := y p, z := z p\<rparr> = p
   \<and> (updatePhoto zoomed e q)\<lparr>x := x q, y := y q, z := z q, opacity := opacity q\<rparr> = q
   \<and> map particle_attributes (particlesRef (updatePhysics s)) = map particle_attributes (particlesRef s)
   \<and> map photo_attributes (photoObjectsRef (updatePhysics s)) = map photo_attributes (photoObjectsRef s)
   \<and> map particle_attributes (particlesRef ((updatePhysics ^^ n) s)) = map particle_attributes (particlesRef s)
   \<and> map photo_attributes (photoObjectsRef ((updatePhysics ^^ n) s)) = map photo_attributes (photoObjectsRef s)"
proof (intro conjI)
  show "(updateParticle e p)\<lparr>x := x p, y := y p, z := z p\<rparr> = p"
    by (simp add: updateParticle_def)
  show "(updatePhoto zoomed e q)\<lparr>x := x q, y := y q, z := z q, opacity := opacity q\<rparr> = q"
    by (simp add: updatePhoto_def split: prod.splits)
  show "map particle_attributes (particlesRef (updatePhysics s)) = map particle_attributes (particlesRef s)"
    by (rule updatePhysics_attributes)
  show "map photo_attributes (photoObjectsRef (updatePhysics s)) = map photo_attributes (photoObjectsRef s)"
    by (rule updatePhysics_attributes)
  show "map particle_attributes (particlesRef ((updatePhysics ^^ n) s)) = map particle_attributes (particlesRef s)"
    using updatePhysics_funpow_attributes [of n s] by blast
  show "map photo_attributes (photoObjectsRef ((updatePhysics ^^ n) s)) = map photo_attributes (photoObjectsRef s)"
    using updatePhysics_funpow_attributes [of n s] by blast
qed

section \<open>Opacity\<close>

lemma newPhotoObject_opacity: "opacity (newPhotoObject im draws) = 0"
  by (cases draws) (simp add: newPhotoObject_def Let_def)

lemma updatePhoto_opacity:
  "opacity (updatePhoto zoomed e p) =
    easeTo (if zoomed = Some (PhotoObject.ident p) then 1
            else if truthy zoomed then 0 else if e then 1 else 0) (opacity p)"
  by (simp add: updatePhoto_def)

lemma easeTo_unit_interval:
  assumes "0 \<le> v" and "v \<le> 1"
  shows "0 \<le> easeTo 0 v" and "easeTo 0 v \<le> 1" and "0 \<le> easeTo 1 v" and "easeTo 1 v \<le> 1"
  using assms by (simp_all add: easeTo_def ease_def field_simps)

lemma updatePhoto_in_range:
  "opacity_in_range p \<Longrightarrow> opacity_in_range (updatePhoto zoomed e p)"
  unfolding opacity_in_range_def updatePhoto_opacity
  by (auto intro: easeTo_unit_interval)

lemma step_opacity:
  assumes "list_all opacity_in_range (photoObjectsRef s)"
  shows "list_all opacity_in_range (photoObjectsRef (step ev s))"
proof (cases ev)
  case Tick
  then show ?thesis
    using assms by (simp add: updatePhysics_def list_all_iff updatePhoto_in_range)
next
  case (Photos photos rnd)
  then show ?thesis
    using assms
    by (auto simp: syncPhotos_def Let_def list_all_iff opacity_in_range_def newPhotoObject_opacity)
qed (use assms in \<open>simp_all add: onMouseDown_keeps gestureEffect_keeps other_events_keep\<close>)

lemma run_opacity:
  "list_all opacity_in_range (photoObjectsRef s) \<Longrightarrow>
   list_all opacity_in_range (photoObjectsRef (run evs s))"
  by (induction evs arbitrary: s) (simp_all add: step_opacity)

text \<open>
  C10. A photo is created with opacity 0. A physics step replaces the opacity \<open>o\<close> of a
  photo by \<open>o + (t - o) * 0.05\<close> where the target \<open>t\<close> is 0 or 1, and that update maps
  \<open>[0, 1]\<close> into \<open>[0, 1]\<close>. So in every scene the component reaches from its initial
  state, by any sequence of events, the opacity of every photo lies in \<open>[0, 1]\<close>.
\<close>

theorem opacity_within_unit_interval:
  "opacity (newPhotoObject im draws) = 0
   \<and> (opacity (updatePhoto zoomed e p) = opacity p + (0 - opacity p) * 0.05
        \<or> opacity (updatePhoto zoomed e p) = opacity p + (1 - opacity p) * 0.05)
   \<and> (0 \<le> opacity p \<and> opacity p \<le> 1 \<longrightarrow>
        0 \<le> opacity (updatePhoto zoomed e p) \<and> opacity (updatePhoto zoomed e p) \<le> 1)
   \<and> (\<forall>q \<in> set (photoObjectsRef (run evs initialScene)). 0 \<le> opacity q \<and> opacity q \<le> 1)"
proof (intro conjI impI ballI)
  show "opacity (newPhotoObject im draws) = 0"
    by (rule newPhotoObject_opacity)
  show "opacity (updatePhoto zoomed e p) = opacity p + (0 - opacity p) * 0.05
        \<or> opacity (updatePhoto zoomed e p) = opacity p + (1 - opacity p) * 0.05"
    by (simp add: updatePhoto_opacity easeTo_def ease_def)
next
  assume "0 \<le> opacity p \<and> opacity p \<le> 1"
  then have "opacity_in_range (updatePhoto zoomed e p)"
    by (intro updatePhoto_in_range) (simp add: opacity_in_range_def)
  then show "0 \<le> opacity (updatePhoto zoomed e p)" and "opacity (updatePhoto zoomed e p) \<le> 1"
    by (simp_all add: opacity_in_range_def)
next
  fix q
  assume q: "q \<in> set (photoObjectsRef (run evs initialScene))"
  have "list_all opacity_in_range (photoObjectsRef (run evs initialScene))"
    by (rule run_opacity) (simp add: initialScene_def)
  with q have "opacity_in_range q"
    by (simp add: list_all_iff)
  then show "0 \<le> opacity q" and "opacity q \<le> 1"
    by (simp_all add: opacity_in_range_def)
qed

lemma exampleSession_photos:
  "photoObjectsRef (run exampleSession initialScene) =
    [updatePhoto None True (updatePhoto None True
      (newPhotoObject \<lparr>img_width = 400, img_height = 300\<rparr> (1/2, 0, 1/2, ''k3x9q0w2z'')))]"
  by (simp add: exampleSession_def initialScene_def onMouseDown_def handleInteraction_def
      syncPhotos_def updatePhysics_def)

theorem opacity_within_unit_interval_witness:
  "opacity (hd (photoObjectsRef (run exampleSession initialScene))) = 39/400
   \<and> 0 \<le> opacity (hd (photoObjectsRef (run exampleSession initialScene)))
   \<and> opacity (hd (photoObjectsRef (run exampleSession initialScene))) \<le> 1"
proof -
  have mem: "hd (photoObjectsRef (run exampleSession initialScene))
      \<in> set (photoObjectsRef (run exampleSession initialScene))"
    by (simp add: exampleSession_photos)
  have "opacity (hd (photoObjectsRef (run exampleSession initialScene))) = 39/400"
    by (simp add: exampleSession_photos updatePhoto_opacity newPhotoObject_opacity
        easeTo_def ease_def truthy_def)
  moreover have "0 \<le> opacity (hd (photoObjectsRef (run exampleSession initialScene)))
      \<and> opacity (hd (photoObjectsRef (run exampleSession initialScene))) \<le> 1"
    using opacity_within_unit_interval [where evs = exampleSession] mem by blast
  ultimately show ?thesis by blast
qed

section \<open>The kind of a particle\<close>

lemma initParticle_ptype: "ptype (initParticle mobile dims i rnd) = kindOfDraw (rnd 4)"
  by (simp add: initParticle_def kindOfDraw_def Let_def)

lemma initParticles_length:
  "length (particlesRef (initParticles rnd s)) = PARTICLE_COUNT (isMobile s)"
  by (simp add: initParticles_def)

lemma initParticles_nth:
  "i < PARTICLE_COUNT (isMobile s) \<Longrightarrow>
   particlesRef (initParticles rnd s) ! i = initParticle (isMobile s) (dimensions s) i (rnd i)"
  by (simp add: initParticles_def)

text \<open>
  C7. The kind of a generated particle depends on one draw only, the fifth of the ten
  made for it: below 0.10 it is SPARKLE, from 0.10 to below 0.18 it is GIFT, and from
  0.18 on it is the golden ornament, which the source calls FLOWER. That holds for each of
  the 1200 or 1500 particles of a population. Of the draws in \<open>[0, 1)\<close>, those giving a
  sparkle are the interval \<open>[0, 0.10)\<close>, those giving a gift \<open>[0.10, 0.18)\<close>, and those
  giving an ornament \<open>[0.18, 1)\<close>, of lengths 0.10, 0.08 and 0.82.
\<close>

theorem particle_kind_from_draw:
  "ptype (initParticle mobile dims i rnd) =
      (if rnd 4 < 0.10 then SPARKLE else if rnd 4 < 0.18 then GIFT else FLOWER)
   \<and> length (particlesRef (initParticles draws s)) = (if isMobile s then 1200 else 1500)
   \<and> (k < length (particlesRef (initParticles draws s)) \<longrightarrow>
        ptype (particlesRef (initParticles draws s) ! k) = kindOfDraw (draws k 4))
   \<and> {r. 0 \<le> r \<and> r < 1 \<and> kindOfDraw r = SPARKLE} = {0 ..< 0.10}
   \<and> {r. 0 \<le> r \<and> r < 1 \<and> kindOfDraw r = GIFT} = {0.10 ..< 0.18}
   \<and> {r. 0 \<le> r \<and> r < 1 \<and> kindOfDraw r = FLOWER} = {0.18 ..< 1}"
proof (intro conjI impI)
  show "ptype (initParticle mobile dims i rnd) =
      (if rnd 4 < 0.10 then SPARKLE else if rnd 4 < 0.18 then GIFT else FLOWER)"
    by (simp add: initParticle_ptype kindOfDraw_def)
  show "length (particlesRef (initParticles draws s)) = (if isMobile s then 1200 else 1500)"
    by (simp add: initParticles_length PARTICLE_COUNT_def)
  show "{r. 0 \<le> r \<and> r < 1 \<and> kindOfDraw r = SPARKLE} = {0 ..< 0.10}"
    by (auto simp: kindOfDraw_def)
  show "{r. 0 \<le> r \<and> r < 1 \<and> kindOfDraw r = GIFT} = {0.10 ..< 0.18}"
    by (auto simp: kindOfDraw_def)
  show "{r. 0 \<le> r \<and> r < 1 \<and> kindOfDraw r = FLOWER} = {0.18 ..< 1}"
    by (auto simp: kindOfDraw_def)
next
  assume "k < length (particlesRef (initParticles draws s))"
  then have "k < PARTICLE_COUNT (isMobile s)"
    by (simp add: initParticles_length)
  then show "ptype (particlesRef (initParticles draws s) ! k) = kindOfDraw (draws k 4)"
    by (simp add: initParticles_nth initParticle_ptype)
qed

theorem particle_kind_from_draw_witness:
  "ptype (particlesRef (initParticles exampleDraws initialScene) ! 0) = SPARKLE
   \<and> ptype (particlesRef (initParticles exampleDraws initialScene) ! 1) = GIFT
   \<and> ptype (particlesRef (initParticles exampleDraws initialScene) ! 2) = FLOWER
   \<and> length (particlesRef (initParticles exampleDraws initialScene)) = 1500"
proof -
  note k0 = particle_kind_from_draw [where draws = exampleDraws and s = initialScene and k = 0
      and mobile = False and dims = "dimensions initialScene" and i = 0 and rnd = "exampleDraws 0"]
  note k1 = particle_kind_from_draw [where draws = exampleDraws and s = initialScene and k = 1
      and mobile = False and dims = "dimensions initialScene" and i = 1 and rnd = "exampleDraws 1"]
  note k2 = particle_kind_from_draw [where draws = exampleDraws and s = initialScene and k = 2
      and mobile = False and dims = "dimensions initialScene" and i = 2 and rnd = "exampleDraws 2"]
  have len: "length (particlesRef (initParticles exampleDraws initialScene)) = 1500"
    using k0 by (simp add: initialScene_def)
  have "ptype (particlesRef (initParticles exampleDraws initialScene) ! 0) = SPARKLE"
    using k0 len by (simp add: kindOfDraw_def exampleDraws_def)
  moreover have "ptype (particlesRef (initParticles exampleDraws initialScene) ! 1) = GIFT"
    using k1 len by (simp add: kindOfDraw_def exampleDraws_def)
  moreover have "ptype (particlesRef (initParticles exampleDraws initialScene) ! 2) = FLOWER"
    using k2 len by (simp add: kindOfDraw_def exampleDraws_def)
  ultimately show ?thesis using len by blast
qed

section \<open>The drawing order\<close>

lemma STAR_MODEL_faces:
  "snd STAR_MODEL =
    [(0, 2, 3), (0, 3, 4), (1, 3, 2), (1, 4, 3),
     (0, 4, 5), (0, 5, 6), (1, 5, 4), (1, 6, 5),
     (0, 6, 7), (0, 7, 8), (1, 7, 6), (1, 8, 7),
     (0, 8, 9), (0, 9, 10), (1, 9, 8), (1, 10, 9),
     (0, 10, 11), (0, 11, 2), (1, 11, 10), (1, 2, 11)]"
  by (simp add: STAR_MODEL_def createStarModel_def Let_def upt_conv_Cons)

lemma STAR_MODEL_vertices: "length (fst STAR_MODEL) = 12"
  by (simp add: STAR_MODEL_def createStarModel_def Let_def upt_conv_Cons)

lemma STAR_MODEL_face_bounds:
  assumes "face \<in> set (snd STAR_MODEL)"
  shows "fst face < 12 \<and> fst (snd face) < 12 \<and> snd (snd face) < 12"
  using assms unfolding STAR_MODEL_faces by auto


lemma starItems_length: "length (starItems dims cosr sinr) = 20"
  by (simp add: starItems_def Let_def STAR_MODEL_faces)

lemma starFaceItem_sortZ:
  "sortZ (starFaceItem verts (f0, f1, f2)) = (z (verts ! f0) + z (verts ! f1) + z (verts ! f2)) / 3"
  by (simp add: starFaceItem_def Let_def)

lemma starItems_sortZ:
  assumes "i < 20" and "snd STAR_MODEL ! i = (f0, f1, f2)"
  shows "f0 < 12 \<and> f1 < 12 \<and> f2 < 12
    \<and> sortZ (starItems dims (cos r) (sin r) ! i) =
        (rotatedZ r (fst STAR_MODEL ! f0) + rotatedZ r (fst STAR_MODEL ! f1)
          + rotatedZ r (fst STAR_MODEL ! f2)) / 3"
proof -
  have len: "length (snd STAR_MODEL) = 20"
    by (simp add: STAR_MODEL_faces)
  with assms have "(f0, f1, f2) \<in> set (snd STAR_MODEL)"
    by (metis nth_mem)
  then have bounds: "f0 < 12 \<and> f1 < 12 \<and> f2 < 12"
    using STAR_MODEL_face_bounds [of "(f0, f1, f2)"] by simp
  then have "sortZ (starItems dims (cos r) (sin r) ! i) =
        (rotatedZ r (fst STAR_MODEL ! f0) + rotatedZ r (fst STAR_MODEL ! f1)
          + rotatedZ r (fst STAR_MODEL ! f2)) / 3"
    using assms len
    by (simp add: starItems_def Let_def starFaceItem_sortZ STAR_MODEL_vertices rotatedZ_def)
  with bounds show ?thesis by blast
qed

lemma sort_descending:
  "sorted_wrt (\<lambda>a b. sortZ b \<le> sortZ a) (sort_key (\<lambda>item. - sortZ item) items)"
proof -
  have "sorted (map (\<lambda>item. - sortZ item) (sort_key (\<lambda>item. - sortZ item) items))"
    by (rule sorted_sort_key)
  then show ?thesis
    by (simp add: sorted_map)
qed

text \<open>
  C6. A frame with a canvas and its drawing context draws one list. Before the sort it
  holds an item for every particle, then one for every photo, then, only when no photo is
  zoomed, the twenty faces of the star. The sort depth of a particle and of a photo is
  its rotated \<open>z\<close>, the \<open>rz\<close> that the rotation step of the renderer gives it: the
  \<open>z\<close> of its position turned by the scene's rotation, and for the zoomed photo, which
  bypasses the rotation, its own \<open>z\<close>. A star face is tagged with the average of the
  rotated \<open>z\<close> of its three vertices. The list drawn is a permutation of that list in
  descending order of sort depth.
\<close>

theorem draw_sorted_list:
  "(canvasRef s = Some canvas \<and> context2d canvas \<longrightarrow> draw s \<noteq> None)
   \<and> (draw s = Some items \<longrightarrow>
        mset items = mset (allObjects s) \<and> sorted_wrt (\<lambda>a b. sortZ b \<le> sortZ a) items)
   \<and> allObjects s =
        map (particleItem (cos (rotationRef s)) (sin (rotationRef s))) (particlesRef s)
        @ map (photoItem (zoomedPhotoIdRef s) (cos (rotationRef s)) (sin (rotationRef s)))
            (photoObjectsRef s)
        @ (if truthy (zoomedPhotoIdRef s) then []
           else starItems (dimensions s) (cos (rotationRef s)) (sin (rotationRef s)))
   \<and> particle_obj (particleItem (cos r) (sin r) p) = p
   \<and> sortZ (particleItem (cos r) (sin r) p) = rz (particleItem (cos r) (sin r) p)
   \<and> rz (particleItem (cos r) (sin r) p) = rotatedZ r p
   \<and> photo_obj (photoItem zoomed (cos r) (sin r) q) = q
   \<and> sortZ (photoItem zoomed (cos r) (sin r) q) = rz (photoItem zoomed (cos r) (sin r) q)
   \<and> rz (photoItem zoomed (cos r) (sin r) q)
       = (if zoomed = Some (PhotoObject.ident q) then z q else rotatedZ r q)
   \<and> length (starItems dims (cos r) (sin r)) = 20
   \<and> (i < 20 \<and> snd STAR_MODEL ! i = (f0, f1, f2) \<longrightarrow>
        f0 < 12 \<and> f1 < 12 \<and> f2 < 12
        \<and> sortZ (starItems dims (cos r) (sin r) ! i) =
            (rotatedZ r (fst STAR_MODEL ! f0) + rotatedZ r (fst STAR_MODEL ! f1)
              + rotatedZ r (fst STAR_MODEL ! f2)) / 3)"
proof (intro conjI impI)
  assume "canvasRef s = Some canvas \<and> context2d canvas"
  then show "draw s \<noteq> None"
    by (simp add: draw_def)
next
  assume d: "draw s = Some items"
  then have items: "items = sort_key (\<lambda>item. - sortZ item) (allObjects s)"
    by (simp add: draw_def split: option.splits if_splits)
  show "mset items = mset (allObjects s)"
    unfolding items by simp
  show "sorted_wrt (\<lambda>a b. sortZ b \<le> sortZ a) items"
    unfolding items by (rule sort_descending)
next
  show "allObjects s =
        map (particleItem (cos (rotationRef s)) (sin (rotationRef s))) (particlesRef s)
        @ map (photoItem (zoomedPhotoIdRef s) (cos (rotationRef s)) (sin (rotationRef s)))
            (photoObjectsRef s)
        @ (if truthy (zoomedPhotoIdRef s) then []
           else starItems (dimensions s) (cos (rotationRef s)) (sin (rotationRef s)))"
    by (simp add: allObjects_def Let_def)
  show "particle_obj (particleItem (cos r) (sin r) p) = p"
    by (simp add: particleItem_def Let_def)
  show "sortZ (particleItem (cos r) (sin r) p) = rz (particleItem (cos r) (sin r) p)"
    by (simp add: particleItem_def Let_def)
  show "rz (particleItem (cos r) (sin r) p) = rotatedZ r p"
    by (simp add: particleItem_def Let_def rotatedZ_def)
  show "photo_obj (photoItem zoomed (cos r) (sin r) q) = q"
    by (simp add: photoItem_def Let_def)
  show "sortZ (photoItem zoomed (cos r) (sin r) q) = rz (photoItem zoomed (cos r) (sin r) q)"
    by (simp add: photoItem_def Let_def)
  show "rz (photoItem zoomed (cos r) (sin r) q)
       = (if zoomed = Some (PhotoObject.ident q) then z q else rotatedZ r q)"
    by (simp add: photoItem_def Let_def rotatedZ_def)
  show "length (starItems dims (cos r) (sin r)) = 20"
    by (rule starItems_length)
next
  assume a: "i < 20 \<and> snd STAR_MODEL ! i = (f0, f1, f2)"
  then have star: "f0 < 12 \<and> f1 < 12 \<and> f2 < 12
    \<and> sortZ (starItems dims (cos r) (sin r) ! i) =
        (rotatedZ r (fst STAR_MODEL ! f0) + rotatedZ r (fst STAR_MODEL ! f1)
          + rotatedZ r (fst STAR_MODEL ! f2)) / 3"
    by (intro starItems_sortZ) simp_all
  from star show "f0 < 12" by blast
  from star show "f1 < 12" by blast
  from star show "f2 < 12" by blast
  from star show "sortZ (starItems dims (cos r) (sin r) ! i) =
            (rotatedZ r (fst STAR_MODEL ! f0) + rotatedZ r (fst STAR_MODEL ! f1)
              + rotatedZ r (fst STAR_MODEL ! f2)) / 3" by blast
qed

lemma depthScene_draw:
  "draw depthScene =
    Some [PhotoItem (examplePhoto ''b'' (0, 0, 50) (20, 40, 100) 1) 0 0 50 50,
          ParticleItem exampleParticle 3 4 5 5,
          PhotoItem (examplePhoto ''a'' (0, 0, - 100) (100, 0, 0) 1) 0 0 (- 100) (- 100)]"
  by (simp add: draw_def allObjects_def depthScene_def zoomScene_def particleItem_def
      photoItem_def examplePhoto_def exampleParticle_def exampleCanvas_def truthy_def Let_def)

theorem draw_sorted_list_witness:
  "draw depthScene =
    Some [PhotoItem (examplePhoto ''b'' (0, 0, 50) (20, 40, 100) 1) 0 0 50 50,
          ParticleItem exampleParticle 3 4 5 5,
          PhotoItem (examplePhoto ''a'' (0, 0, - 100) (100, 0, 0) 1) 0 0 (- 100) (- 100)]
   \<and> mset (the (draw depthScene)) = mset (allObjects depthScene)
   \<and> sorted_wrt (\<lambda>a b. sortZ b \<le> sortZ a) (the (draw depthScene))
   \<and> sortZ (photoItem (Some ''a'') (cos 0) (sin 0) (examplePhoto ''a'' (0, 0, - 100) (100, 0, 0) 1))
       = - 100
   \<and> sortZ (photoItem (Some ''a'') (cos 0) (sin 0) (examplePhoto ''b'' (0, 0, 50) (20, 40, 100) 1))
       = 50
   \<and> sortZ (starItems (dimensions depthScene) (cos 0) (sin 0) ! 0) = 10/3"
proof -
  note zoomed_photo = draw_sorted_list [where s = depthScene and canvas = exampleCanvas
      and items = "the (draw depthScene)" and zoomed = "Some ''a''" and r = 0
      and q = "examplePhoto ''a'' (0, 0, - 100) (100, 0, 0) 1"
      and dims = "dimensions depthScene" and i = 0 and ?f0.0 = 0 and ?f1.0 = 2 and ?f2.0 = 3]
  note other_photo = draw_sorted_list [where s = depthScene and canvas = exampleCanvas
      and items = "the (draw depthScene)" and zoomed = "Some ''a''" and r = 0
      and q = "examplePhoto ''b'' (0, 0, 50) (20, 40, 100) 1"
      and dims = "dimensions depthScene" and i = 0 and ?f0.0 = 0 and ?f1.0 = 2 and ?f2.0 = 3]
  note sorted_part = zoomed_photo [THEN conjunct2, THEN conjunct1, rule_format]
  note photo_tail = conjunct2 [THEN conjunct2, THEN conjunct2, THEN conjunct2, THEN conjunct2,
      THEN conjunct2, THEN conjunct2]
  note zoomed_tag = zoomed_photo [THEN photo_tail, THEN conjunct1]
  note zoomed_rz = zoomed_photo [THEN photo_tail, THEN conjunct2, THEN conjunct1]
  note other_tag = other_photo [THEN photo_tail, THEN conjunct1]
  note other_rz = other_photo [THEN photo_tail, THEN conjunct2, THEN conjunct1]
  note star_part = zoomed_photo [THEN photo_tail, THEN conjunct2, THEN conjunct2, THEN conjunct2,
      rule_format]
  have drawn: "draw depthScene = Some (the (draw depthScene))"
    by (simp add: depthScene_draw)
  have face: "(0::nat) < 20 \<and> snd STAR_MODEL ! 0 = (0, 2, 3)"
    by (simp add: STAR_MODEL_faces)
  have apex: "z (fst STAR_MODEL ! 0) = 10" and ring2: "z (fst STAR_MODEL ! 2) = 0"
    and ring3: "z (fst STAR_MODEL ! 3) = 0"
    by (simp_all add: STAR_MODEL_def createStarModel_def Let_def upt_conv_Cons STAR_DEPTH_def)
  have perm: "mset (the (draw depthScene)) = mset (allObjects depthScene)
      \<and> sorted_wrt (\<lambda>a b. sortZ b \<le> sortZ a) (the (draw depthScene))"
    using sorted_part [OF drawn] .
  have za: "sortZ (photoItem (Some ''a'') (cos 0) (sin 0)
      (examplePhoto ''a'' (0, 0, - 100) (100, 0, 0) 1)) = - 100"
    unfolding zoomed_tag zoomed_rz by (simp add: examplePhoto_def)
  have zb: "sortZ (photoItem (Some ''a'') (cos 0) (sin 0)
      (examplePhoto ''b'' (0, 0, 50) (20, 40, 100) 1)) = 50"
    unfolding other_tag other_rz by (simp add: examplePhoto_def rotatedZ_def)
  have zs: "sortZ (starItems (dimensions depthScene) (cos 0) (sin 0) ! 0) = 10/3"
    using star_part [OF face] by (simp add: rotatedZ_def apex ring2 ring3)
  show ?thesis
    using depthScene_draw perm za zb zs by (intro conjI) simp_all
qed

section \<open>Hit testing\<close>

lemma perspective_scale_sign:
  "FOCAL_LENGTH + d \<noteq> 0 \<Longrightarrow> (FOCAL_LENGTH / (FOCAL_LENGTH + d) \<le> 0) = (\<not> 0 < FOCAL_LENGTH + d)"
  by (auto simp: FOCAL_LENGTH_def divide_le_0_iff)

lemma rotatedZ_fun: "rotatedZ r = (\<lambda>p. z p * cos r + x p * sin r)"
  by (simp add: fun_eq_iff rotatedZ_def)

text \<open>The loop returns the identifier of the first photo whose rectangle holds the point.\<close>

lemma clickedIdLoop_find:
  "clickedIdLoop inputX inputY (canvas_width canvas / 2) (canvas_height canvas / 2)
      (cos r) (sin r) ps
    = map_option PhotoObject.ident
        (find (projectedRectContains canvas r (inputX, inputY)) ps)"
proof (induction ps)
  case Nil
  show ?case by simp
next
  case (Cons p ps)
  show ?case
  proof (cases "FOCAL_LENGTH + rotatedZ r p = 0")
    case True
    then show ?thesis
      using Cons.IH
      by (simp add: projectedRectContains_def rotatedZ_def Let_def)
  next
    case False
    then show ?thesis
      using Cons.IH perspective_scale_sign [of "rotatedZ r p"]
      by (auto simp: projectedRectContains_def perspectiveScale_def rotatedZ_def Let_def)
  qed
qed

lemma handleInteraction_hit_test:
  assumes "isExploded s" and "\<not> truthy (zoomedPhotoIdRef s)" and "canvasRef s = Some canvas"
  shows "handleInteraction inputX inputY False s =
    (case find (projectedRectContains canvas (rotationRef s) (inputX, inputY)) (hitCandidates s) of
      None \<Rightarrow> s
    | Some p \<Rightarrow> if PhotoObject.ident p = [] then s
                else s\<lparr>zoomedPhotoIdRef := Some (PhotoObject.ident p)\<rparr>)"
  using assms
  by (simp add: handleInteraction_def Let_def hitCandidates_def rotatedZ_fun clickedIdLoop_find
      truthy_def split: option.splits)


lemma hitCandidates_sorted: "sorted (map (rotatedZ (rotationRef s)) (hitCandidates s))"
  unfolding hitCandidates_def by (rule sorted_sort_key)

text \<open>
  The candidates are the photos that pass the filter, in ascending order of rotated
  depth, photos of equal depth in their order of arrival.
\<close>

lemma hitCandidates_order:
  "set (hitCandidates s) = {p \<in> set (photoObjectsRef s). 1/2 < opacity p}
   \<and> mset (hitCandidates s) = mset (filter (\<lambda>p. 1/2 < opacity p) (photoObjectsRef s))
   \<and> sorted (map (rotatedZ (rotationRef s)) (hitCandidates s))
   \<and> filter (\<lambda>p. rotatedZ (rotationRef s) p = depth) (hitCandidates s)
       = filter (\<lambda>p. rotatedZ (rotationRef s) p = depth)
           (filter (\<lambda>p. 1/2 < opacity p) (photoObjectsRef s))"
proof (intro conjI)
  show "set (hitCandidates s) = {p \<in> set (photoObjectsRef s). 1/2 < opacity p}"
    by (auto simp: hitCandidates_def)
  show "mset (hitCandidates s) = mset (filter (\<lambda>p. 1/2 < opacity p) (photoObjectsRef s))"
    by (simp add: hitCandidates_def)
  show "sorted (map (rotatedZ (rotationRef s)) (hitCandidates s))"
    by (rule hitCandidates_sorted)
  show "filter (\<lambda>p. rotatedZ (rotationRef s) p = depth) (hitCandidates s)
       = filter (\<lambda>p. rotatedZ (rotationRef s) p = depth)
           (filter (\<lambda>p. 1/2 < opacity p) (photoObjectsRef s))"
    unfolding hitCandidates_def by (rule sort_key_stable)
qed

text \<open>
  Two photos over the centre of the canvas: a click there selects the nearer one, and a
  click in a corner selects nothing.
\<close>

lemma overlapScene_candidates:
  "hitCandidates overlapScene =
    [examplePhoto ''b'' (0, 0, - 100) (20, 40, 100) (3/4),
     examplePhoto ''a'' (0, 0, 100) (100, 0, 0) (3/4)]"
  by (simp add: hitCandidates_def overlapScene_def zoomScene_def examplePhoto_def rotatedZ_def)

lemma overlapScene_centre:
  "find (projectedRectContains exampleCanvas (rotationRef overlapScene) (500, 400))
      (hitCandidates overlapScene)
    = Some (examplePhoto ''b'' (0, 0, - 100) (20, 40, 100) (3/4))"
  "projectedRectContains exampleCanvas (rotationRef overlapScene) (500, 400)
      (examplePhoto ''a'' (0, 0, 100) (100, 0, 0) (3/4))"
  "find (projectedRectContains exampleCanvas (rotationRef overlapScene) (5, 5))
      (hitCandidates overlapScene) = None"
  unfolding overlapScene_candidates
  by (simp_all add: overlapScene_def zoomScene_def examplePhoto_def projectedRectContains_def
      perspectiveScale_def rotatedZ_def exampleCanvas_def FOCAL_LENGTH_def Let_def)

lemma overlapScene_nearest_selected:
  "handleInteraction 500 400 False overlapScene = overlapScene\<lparr>zoomedPhotoIdRef := Some ''b''\<rparr>"
  "handleInteraction 5 5 False overlapScene = overlapScene"
proof -
  have pre: "isExploded overlapScene" "\<not> truthy (zoomedPhotoIdRef overlapScene)"
    "canvasRef overlapScene = Some exampleCanvas"
    by (simp_all add: overlapScene_def zoomScene_def truthy_def)
  show "handleInteraction 500 400 False overlapScene
      = overlapScene\<lparr>zoomedPhotoIdRef := Some ''b''\<rparr>"
    unfolding handleInteraction_hit_test [OF pre] overlapScene_centre(1)
    by (simp add: examplePhoto_def)
  show "handleInteraction 5 5 False overlapScene = overlapScene"
    unfolding handleInteraction_hit_test [OF pre] overlapScene_centre(3)
    by simp
qed

subsection \<open>No reachable opacity is one half\<close>

lemma twenty_power_mod: "(20::int) ^ n mod 19 = 1"
proof (induction n)
  case 0
  show ?case by simp
next
  case (Suc n)
  have "(20::int) ^ Suc n mod 19 = ((20 mod 19) * (20 ^ n mod 19)) mod 19"
    by (simp only: power_Suc mod_mult_eq)
  also have "\<dots> = 1"
    by (simp only: Suc.IH) simp
  finally show ?case .
qed

text \<open>
  A reachable opacity is \<open>a / 20\<^sup>n\<close> for an integer \<open>a\<close> that leaves the remainder 0
  or 1 modulo 19.
\<close>

lemma reachable_opacity_form:
  assumes "reachable_opacity v"
  shows "\<exists>n a. v = real_of_int a / 20 ^ n \<and> (a mod 19 = 0 \<or> a mod 19 = 1)"
  using assms
proof (induction rule: reachable_opacity.induct)
  case created
  have "(0::real) = real_of_int 0 / 20 ^ 0 \<and> ((0::int) mod 19 = 0 \<or> (0::int) mod 19 = 1)"
    by simp
  then show ?case
    by (intro exI [of _ "0::nat"] exI [of _ "0::int"])
next
  case (fading v)
  then obtain n a where v: "v = real_of_int a / 20 ^ n" and a: "a mod 19 = 0 \<or> a mod 19 = 1"
    by auto
  have e: "easeTo 0 v = real_of_int (19 * a) / 20 ^ Suc n"
    by (simp add: v easeTo_def ease_def field_simps)
  show ?case
    by (rule exI [of _ "Suc n"], rule exI [of _ "19 * a"]) (simp add: e)
next
  case (showing v)
  then obtain n a where v: "v = real_of_int a / 20 ^ n" and a: "a mod 19 = 0 \<or> a mod 19 = 1"
    by auto
  have e: "easeTo 1 v = real_of_int (19 * a + 20 ^ n) / 20 ^ Suc n"
    by (simp add: v easeTo_def ease_def field_simps)
  have m: "(19 * a + 20 ^ n) mod 19 = 1"
    by (simp add: twenty_power_mod)
  show ?case
    by (rule exI [of _ "Suc n"], rule exI [of _ "19 * a + 20 ^ n"]) (simp only: e m simp_thms)
qed

lemma reachable_opacity_not_half:
  assumes "reachable_opacity v"
  shows "v \<noteq> 1/2"
proof
  assume half: "v = 1/2"
  from reachable_opacity_form [OF assms] obtain n a where v: "v = real_of_int a / 20 ^ n"
    and a: "a mod 19 = 0 \<or> a mod 19 = 1"
    by auto
  from half v have "real_of_int (2 * a) = real_of_int (20 ^ n)"
    by (simp add: field_simps)
  then have eq: "2 * a = 20 ^ n"
    by (simp only: of_int_eq_iff)
  have "(2 * a) mod 19 = (2 * (a mod 19)) mod 19"
    by (simp add: mod_mult_right_eq)
  with a have "(2 * a) mod 19 = 0 \<or> (2 * a) mod 19 = 2"
    by auto
  with eq twenty_power_mod [of n] show False
    by simp
qed

lemma updatePhoto_reachable_opacity:
  "reachable_opacity (opacity p) \<Longrightarrow> reachable_opacity (opacity (updatePhoto zoomed e p))"
  by (simp add: updatePhoto_def reachable_opacity.intros)

lemma step_reachable_opacity:
  assumes "list_all (\<lambda>p. reachable_opacity (opacity p)) (photoObjectsRef s)"
  shows "list_all (\<lambda>p. reachable_opacity (opacity p)) (photoObjectsRef (step ev s))"
proof (cases ev)
  case Tick
  then show ?thesis
    using assms by (simp add: updatePhysics_def list_all_iff updatePhoto_reachable_opacity)
next
  case (Photos photos rnd)
  then show ?thesis
    using assms
    by (auto simp: syncPhotos_def Let_def list_all_iff newPhotoObject_opacity
        reachable_opacity.created)
qed (use assms in \<open>simp_all add: onMouseDown_keeps gestureEffect_keeps other_events_keep\<close>)

lemma run_reachable_opacity:
  "list_all (\<lambda>p. reachable_opacity (opacity p)) (photoObjectsRef s) \<Longrightarrow>
   list_all (\<lambda>p. reachable_opacity (opacity p)) (photoObjectsRef (run evs s))"
  by (induction evs arbitrary: s) (simp_all add: step_reachable_opacity)

text \<open>
  So in every scene the component reaches, the photos at least half opaque are the photos
  more than half opaque, which are the ones the source keeps.
\<close>

lemma reachable_never_half:
  "p \<in> set (photoObjectsRef (run evs initialScene)) \<Longrightarrow> opacity p \<noteq> 1/2"
proof -
  assume p: "p \<in> set (photoObjectsRef (run evs initialScene))"
  have "list_all (\<lambda>p. reachable_opacity (opacity p)) (photoObjectsRef (run evs initialScene))"
    by (rule run_reachable_opacity) (simp add: initialScene_def)
  with p have "reachable_opacity (opacity p)"
    by (simp add: list_all_iff)
  then show ?thesis by (rule reachable_opacity_not_half)
qed

lemma reachable_candidates:
  "claimedCandidates (run evs initialScene) = hitCandidates (run evs initialScene)"
proof -
  have "filter (\<lambda>p. 1/2 \<le> opacity p) (photoObjectsRef (run evs initialScene))
      = filter (\<lambda>p. 1/2 < opacity p) (photoObjectsRef (run evs initialScene))"
    by (rule filter_cong) (use reachable_never_half [of _ evs] in \<open>auto simp: less_le\<close>)
  then show ?thesis
    by (simp only: claimedCandidates_def hitCandidates_def)
qed

subsection \<open>The hit test on a reachable scene\<close>

lemma claimedCandidates_sorted:
  "sorted (map (rotatedZ (rotationRef s)) (claimedCandidates s))"
  unfolding claimedCandidates_def by (rule sorted_sort_key)

text \<open>
  On a scene the component reaches, exploded, with nothing zoomed and the canvas
  mounted, a primary action selects the first of the photos at least half opaque, nearest
  first, whose rectangle holds the point, unless that photo bears the empty identifier;
  then, and when no rectangle holds the point, the scene is unchanged.
\<close>

lemma hit_test_on_reachable_scene:
  assumes "s = run evs initialScene" and "isExploded s" and "\<not> truthy (zoomedPhotoIdRef s)"
    and "canvasRef s = Some canvas"
  shows "handleInteraction inputX inputY False s =
    (case find (projectedRectContains canvas (rotationRef s) (inputX, inputY))
        (claimedCandidates s) of
      None \<Rightarrow> s
    | Some p \<Rightarrow> if PhotoObject.ident p = [] then s
                else s\<lparr>zoomedPhotoIdRef := Some (PhotoObject.ident p)\<rparr>)"
proof -
  have "claimedCandidates s = hitCandidates s"
    unfolding assms(1) by (rule reachable_candidates)
  then show ?thesis
    using handleInteraction_hit_test [OF assms(2) assms(3) assms(4)] by simp
qed

text \<open>
  A photo on the axis of the camera, at most 200 in front of the origin, holds the centre
  of the canvas in its rectangle while the scene is turned by at most a tenth of a radian.
\<close>

lemma centre_in_rectangle:
  assumes r: "0 \<le> r" "r \<le> 1/10"
    and pos: "x p = 0" "y p = 0" "- 200 \<le> z p" "z p \<le> 0"
    and size: "width p = 120" "height p = 90"
  shows "projectedRectContains exampleCanvas r (500, 400) p"
proof -
  have "r \<le> pi"
    using r pi_ge_two by linarith
  with r have sn: "0 \<le> sin r" "sin r \<le> 1/10"
    using sin_ge_zero [of r] sin_x_le_x [of r] by linarith+
  have "\<bar>z p * cos r\<bar> = \<bar>z p\<bar> * \<bar>cos r\<bar>"
    by (rule abs_mult)
  also have "\<dots> \<le> 200 * 1"
    using pos by (intro mult_mono) simp_all
  finally have zc: "- 200 \<le> z p * cos r"
    by linarith
  have side: "0 \<le> - z p * sin r"
    using pos sn by (intro mult_nonneg_nonneg) simp_all
  have "- z p * sin r \<le> 200 * (1/10)"
    using pos sn by (intro mult_mono) simp_all
  then have side_le: "- z p * sin r \<le> 60"
    by simp
  define scale where "scale = 800 / (800 + z p * cos r)"
  have scale: "0 < scale"
    unfolding scale_def using zc by simp
  have left: "(- z p * sin r - 60) * scale \<le> 0"
    using side_le scale by (intro mult_nonpos_nonneg) simp_all
  have right: "0 \<le> (- z p * sin r + 60) * scale"
    using side scale by (intro mult_nonneg_nonneg) simp_all
  have "0 < FOCAL_LENGTH + rotatedZ r p"
    using zc by (simp add: FOCAL_LENGTH_def rotatedZ_def pos)
  moreover have "perspectiveScale r p = scale"
    by (simp add: perspectiveScale_def FOCAL_LENGTH_def rotatedZ_def pos scale_def)
  ultimately show ?thesis
    using left right scale
    by (simp add: projectedRectContains_def Let_def exampleCanvas_def pos size algebra_simps)
qed

subsection \<open>A photo with the empty identifier\<close>

lemma run_append: "run (evs @ evs') s = run evs' (run evs s)"
  by (induction evs arbitrary: s) simp_all

lemma emptyIdScene_state:
  "emptyIdScene =
    \<lparr>isExploded = True, particlesRef = [], photoObjectsRef = [emptyIdPhoto],
     rotationRef = 14/1000, zoomedPhotoIdRef = None,
     dimensions = \<lparr>dim_height = 600, dim_radius = 220\<rparr>, isMobile = False,
     canvasRef = Some exampleCanvas\<rparr>"
  by (simp add: emptyIdScene_def emptyIdSession_def emptyIdPhoto_def initialScene_def
      onMouseDown_def handleInteraction_def syncPhotos_def newPhotoObject_def updatePhysics_def
      updatePhoto_def truthy_def easeTo_def ease_def exampleCanvas_def Let_def power_divide)

lemma emptyIdPhoto_fields:
  "PhotoObject.ident emptyIdPhoto = []"
  "1/2 < opacity emptyIdPhoto"
  "x emptyIdPhoto = 0"
  "y emptyIdPhoto = 0"
  "- 200 \<le> z emptyIdPhoto"
  "z emptyIdPhoto \<le> 0"
  "width emptyIdPhoto = 120"
  "height emptyIdPhoto = 90"
  by (simp_all add: emptyIdPhoto_def power_divide)

lemma emptyIdScene_fields:
  "isExploded emptyIdScene" "zoomedPhotoIdRef emptyIdScene = None"
  "canvasRef emptyIdScene = Some exampleCanvas" "rotationRef emptyIdScene = 14/1000"
  "photoObjectsRef emptyIdScene = [emptyIdPhoto]"
  by (simp_all add: emptyIdScene_state)

lemma emptyIdScene_candidates: "claimedCandidates emptyIdScene = [emptyIdPhoto]"
  using emptyIdPhoto_fields(2)
  by (simp add: claimedCandidates_def emptyIdScene_fields)

lemma emptyIdScene_contains:
  "projectedRectContains exampleCanvas (rotationRef emptyIdScene) (500, 400) emptyIdPhoto"
  unfolding emptyIdScene_fields(4)
  by (rule centre_in_rectangle) (simp_all add: emptyIdPhoto_fields)

text \<open>
  C4. On a primary select action in an exploded scene with no photo zoomed, the
  candidates are the photos at least 50% opaque, in ascending order of rotated depth, and
  the photo selected is the first candidate whose projected rectangle holds the input
  point; with no such candidate the scene is unchanged. The source does so on every scene
  the component reaches (\<open>hit_test_on_reachable_scene\<close>) but for a photo with the empty
  identifier, which the identifier draw yields when \<^verbatim>\<open>Math.random()\<close> returns 0:
  the loop stops at that photo and the test \<^verbatim>\<open>if (clickedId)\<close>, meant for "nothing
  was hit", takes the empty string for nothing. In the scene that
  \<^term>\<open>emptyIdSession\<close> reaches the tree is exploded, nothing is zoomed, and the only
  photo is more than half opaque and holds the centre of the canvas in its projected
  rectangle: it is the first candidate, nearest first, whose rectangle holds the point.
  A click on the centre selects nothing: the scene after it is the scene before.
\<close>

theorem empty_id_photo_not_selected:
  "emptyIdScene = run emptyIdSession initialScene
   \<and> isExploded emptyIdScene
   \<and> zoomedPhotoIdRef emptyIdScene = None
   \<and> photoObjectsRef emptyIdScene = [emptyIdPhoto]
   \<and> 1/2 < opacity emptyIdPhoto
   \<and> PhotoObject.ident emptyIdPhoto = []
   \<and> find (projectedRectContains exampleCanvas (rotationRef emptyIdScene) (500, 400))
        (claimedCandidates emptyIdScene) = Some emptyIdPhoto
   \<and> run (emptyIdSession @ [MouseDown 500 400 0]) initialScene = emptyIdScene
   \<and> zoomedPhotoIdRef (run (emptyIdSession @ [MouseDown 500 400 0]) initialScene) = None"
proof -
  have found: "find (projectedRectContains exampleCanvas (rotationRef emptyIdScene) (500, 400))
        (claimedCandidates emptyIdScene) = Some emptyIdPhoto"
    using emptyIdScene_contains by (simp add: emptyIdScene_candidates)
  have "handleInteraction 500 400 False emptyIdScene =
    (case find (projectedRectContains exampleCanvas (rotationRef emptyIdScene) (500, 400))
        (claimedCandidates emptyIdScene) of
      None \<Rightarrow> emptyIdScene
    | Some p \<Rightarrow> if PhotoObject.ident p = [] then emptyIdScene
                else emptyIdScene\<lparr>zoomedPhotoIdRef := Some (PhotoObject.ident p)\<rparr>)"
    by (rule hit_test_on_reachable_scene [where evs = emptyIdSession])
      (simp_all add: emptyIdScene_def [symmetric] emptyIdScene_fields truthy_def)
  then have "handleInteraction 500 400 False emptyIdScene = emptyIdScene"
    by (simp add: found emptyIdPhoto_fields(1))
  then have "onMouseDown 500 400 0 emptyIdScene = emptyIdScene"
    by (simp add: onMouseDown_def emptyIdScene_fields exampleCanvas_def)
  then have after: "run (emptyIdSession @ [MouseDown 500 400 0]) initialScene = emptyIdScene"
    by (simp add: run_append emptyIdScene_def)
  show ?thesis
  proof (intro conjI)
    show "emptyIdScene = run emptyIdSession initialScene"
      by (rule emptyIdScene_def)
    show "isExploded emptyIdScene"
      by (rule emptyIdScene_fields)
    show "zoomedPhotoIdRef emptyIdScene = None"
      by (rule emptyIdScene_fields)
    show "photoObjectsRef emptyIdScene = [emptyIdPhoto]"
      by (rule emptyIdScene_fields)
    show "1/2 < opacity emptyIdPhoto"
      by (rule emptyIdPhoto_fields)
    show "PhotoObject.ident emptyIdPhoto = []"
      by (rule emptyIdPhoto_fields)
    show "find (projectedRectContains exampleCanvas (rotationRef emptyIdScene) (500, 400))
        (claimedCandidates emptyIdScene) = Some emptyIdPhoto"
      by (rule found)
    show "run (emptyIdSession @ [MouseDown 500 400 0]) initialScene = emptyIdScene"
      by (rule after)
    show "zoomedPhotoIdRef (run (emptyIdSession @ [MouseDown 500 400 0]) initialScene) = None"
      unfolding after by (rule emptyIdScene_fields)
  qed
qed

section \<open>Side conditions of the model\<close>

text \<open>The depth of the landmarks plays no part in the classification.\<close>

lemma detectGesture_ignores_z:
  "detectGesture (Some (\<lambda>v. map_option (map (map (\<lambda>l. l\<lparr>z := depth l\<rparr>))) (detectForVideo v))) video
    = detectGesture (Some detectForVideo) video"
proof (cases "detectForVideo video")
  case None
  then show ?thesis by (simp add: detectGesture_def)
next
  case (Some hands)
  show ?thesis
  proof (cases hands)
    case Nil
    with Some show ?thesis by (simp add: detectGesture_def)
  next
    case (Cons hand others)
    show ?thesis
    proof (cases "length hand \<le> 20")
      case True
      with Some Cons show ?thesis by (simp add: detectGesture_def)
    next
      case False
      then have "0 < length hand" by linarith
      with False Some Cons show ?thesis
        by (simp add: detectGesture_def Let_def)
    qed
  qed
qed

text \<open>
  The zoomed id is never the empty string: \<open>handleInteraction\<close> stores a clicked id only
  when it is a true value. So in a scene the component reaches, "no photo is zoomed" is
  the id being null.
\<close>

lemma handleInteraction_zoomed:
  "zoomedPhotoIdRef s \<noteq> Some [] \<Longrightarrow> zoomedPhotoIdRef (handleInteraction ix iy r s) \<noteq> Some []"
  by (auto simp: handleInteraction_def Let_def truthy_def split: option.splits)

lemma step_zoomed:
  assumes "zoomedPhotoIdRef s \<noteq> Some []"
  shows "zoomedPhotoIdRef (step ev s) \<noteq> Some []"
proof (cases ev)
  case (MouseDown cx cy b)
  then show ?thesis
    using assms by (simp add: onMouseDown_def handleInteraction_zoomed split: option.splits)
next
  case (Gesture g c)
  then show ?thesis
    using assms
      handleInteraction_zoomed [of s]
      handleInteraction_zoomed [of "s\<lparr>isExploded := True\<rparr>"]
    by (auto simp: gestureEffect_def Let_def split: option.splits prod.splits)
qed (use assms in \<open>simp_all add: updatePhysics_keeps syncPhotos_def handleResize_def
    initParticles_def Let_def\<close>)

lemma run_zoomed:
  "zoomedPhotoIdRef s \<noteq> Some [] \<Longrightarrow> zoomedPhotoIdRef (run evs s) \<noteq> Some []"
  by (induction evs arbitrary: s) (simp_all add: step_zoomed)

lemma reachable_zoomed: "zoomedPhotoIdRef (run evs initialScene) \<noteq> Some []"
  by (rule run_zoomed) (simp add: initialScene_def)

lemma reachable_truthy:
  "truthy (zoomedPhotoIdRef (run evs initialScene)) = (zoomedPhotoIdRef (run evs initialScene) \<noteq> None)"
  using reachable_zoomed [of evs] by (auto simp: truthy_def split: option.splits)

end
